theory Spec2Isabelle
  imports Main "HOL-Library.Word" "HOL-Library.Sublist"
begin

section \<open>JavaScript strings\<close>

text \<open>
  A JavaScript string is a sequence of UTF-16 code units; \<open>charCodeAt\<close>, \<open>length\<close>,
  \<open>includes\<close>, \<open>trim\<close> and the regular expressions of the parser all work on code
  units. The model keeps that: a string is a list of 16-bit words. \<open>js\<close> turns an ASCII
  literal into such a string.
\<close>

type_synonym jschar = "16 word"
type_synonym jsstring = "jschar list"

definition js :: "string \<Rightarrow> jsstring" where
  "js s = map of_char s"

text \<open>
  ECMAScript LineTerminator: LF, CR, U+2028, U+2029. The regular-expression atom \<open>.\<close>
  (without the \<open>s\<close> flag) matches every code unit except these.
\<close>

definition is_lt :: "jschar \<Rightarrow> bool" where
  "is_lt c = (c = 0x0A \<or> c = 0x0D \<or> c = 0x2028 \<or> c = 0x2029)"

text \<open>
  ECMAScript WhiteSpace together with LineTerminator: the set that \<open>String.prototype.trim\<close>
  strips and that \<open>\s\<close> matches.
\<close>

definition is_ws :: "jschar \<Rightarrow> bool" where
  "is_ws c = (c = 0x09 \<or> c = 0x0A \<or> c = 0x0B \<or> c = 0x0C \<or> c = 0x0D \<or> c = 0x20
     \<or> c = 0xA0 \<or> c = 0x1680 \<or> (0x2000 \<le> c \<and> c \<le> 0x200A)
     \<or> c = 0x2028 \<or> c = 0x2029 \<or> c = 0x202F \<or> c = 0x205F \<or> c = 0x3000
     \<or> c = 0xFEFF)"

definition trim :: "jsstring \<Rightarrow> jsstring" where
  "trim s = rev (dropWhile is_ws (rev (dropWhile is_ws s)))"

definition js_includes :: "jsstring \<Rightarrow> jschar \<Rightarrow> bool" where
  "js_includes s c = (c \<in> set s)"

fun startsWith :: "jsstring \<Rightarrow> jsstring \<Rightarrow> bool" where
  "startsWith s [] = True"
| "startsWith [] (p # ps) = False"
| "startsWith (c # cs) (p # ps) = (c = p \<and> startsWith cs ps)"


section \<open>Input validation (src/utils/input-validator.ts)\<close>

datatype input_error =
    NullByte
  | ControlCharacters
  | Newlines
  | EmptyText
  | TooLong

definition MAX_ITEM_TEXT_LENGTH :: nat where
  "MAX_ITEM_TEXT_LENGTH = 10240"

definition MAX_COLUMN_NAME_LENGTH :: nat where
  "MAX_COLUMN_NAME_LENGTH = 200"

definition containsNullByte :: "jsstring \<Rightarrow> bool" where
  "containsNullByte t = js_includes t 0"

text \<open>The loop over \<open>charCodeAt(i)\<close>: tab always passes, LF and CR pass when allowed,
  any other code below 32 makes the function return true.\<close>

fun containsControlCharacters :: "jsstring \<Rightarrow> bool \<Rightarrow> bool" where
  "containsControlCharacters [] allowNewlines = False"
| "containsControlCharacters (code # rest) allowNewlines =
     (if code = 9 then containsControlCharacters rest allowNewlines
      else if allowNewlines \<and> (code = 10 \<or> code = 13)
        then containsControlCharacters rest allowNewlines
      else if code < 32 then True
      else containsControlCharacters rest allowNewlines)"

text \<open>The parameter is typed \<open>string\<close> in the source, so the \<open>typeof\<close> check never
  fires on a value of the model's type.\<close>

definition validateItemText :: "jsstring \<Rightarrow> input_error + jsstring" where
  "validateItemText t =
     (if containsNullByte t then Inl NullByte
      else if containsControlCharacters t True then Inl ControlCharacters
      else let trimmed = trim t in
        if js_includes trimmed 10 \<or> js_includes trimmed 13 then Inl Newlines
        else if length trimmed = 0 then Inl EmptyText
        else if length trimmed > MAX_ITEM_TEXT_LENGTH then Inl TooLong
        else Inr trimmed)"

definition validateColumnName :: "jsstring \<Rightarrow> input_error + jsstring" where
  "validateColumnName name =
     (if containsNullByte name then Inl NullByte
      else if js_includes name 10 \<or> js_includes name 13 then Inl Newlines
      else if containsControlCharacters name False then Inl ControlCharacters
      else let trimmed = trim name in
        if length trimmed = 0 then Inl EmptyText
        else if length trimmed > MAX_COLUMN_NAME_LENGTH then Inl TooLong
        else Inr trimmed)"

text \<open>The condition the specification puts on a string: no null byte, no newline, no
  carriage return and no control character other than tab.\<close>

definition free_of_controls :: "jsstring \<Rightarrow> bool" where
  "free_of_controls t = (\<not> js_includes t 0 \<and> \<not> js_includes t 10 \<and> \<not> js_includes t 13
     \<and> \<not> containsControlCharacters t False)"


section \<open>String helpers of the JavaScript library\<close>

text \<open>\<open>s.split(d)\<close> for a one-character separator: the empty string splits into one
  empty piece.\<close>

fun split_on :: "jschar \<Rightarrow> jsstring \<Rightarrow> jsstring list" where
  "split_on d [] = [[]]"
| "split_on d (c # cs) =
     (if c = d then [] # split_on d cs
      else (case split_on d cs of
              [] \<Rightarrow> [[c]]
            | w # ws \<Rightarrow> (c # w) # ws))"

fun join :: "jsstring \<Rightarrow> jsstring list \<Rightarrow> jsstring" where
  "join s [] = []"
| "join s [p] = p"
| "join s (p # q # ps) = p @ s @ join s (q # ps)"

text \<open>\<open>s.indexOf(p)\<close>: the first position at which \<open>p\<close> starts, \<open>None\<close> for \<open>-1\<close>.\<close>

fun indexOf :: "jsstring \<Rightarrow> jsstring \<Rightarrow> nat option" where
  "indexOf [] p = (if p = [] then Some 0 else None)"
| "indexOf (c # cs) p =
     (if startsWith (c # cs) p then Some 0 else map_option Suc (indexOf cs p))"

text \<open>\<open>Array.prototype.findIndex\<close>, with \<open>None\<close> for \<open>-1\<close>.\<close>

fun findIndex :: "('a \<Rightarrow> bool) \<Rightarrow> 'a list \<Rightarrow> nat option" where
  "findIndex P [] = None"
| "findIndex P (x # xs) = (if P x then Some 0 else map_option Suc (findIndex P xs))"

text \<open>A JavaScript object with string values: keys in insertion order; assigning an
  existing key keeps its place.\<close>

type_synonym jsobject = "(jsstring \<times> jsstring) list"

fun obj_set :: "jsobject \<Rightarrow> jsstring \<Rightarrow> jsstring \<Rightarrow> jsobject" where
  "obj_set [] k v = [(k, v)]"
| "obj_set ((k', v') # kvs) k v =
     (if k' = k then (k, v) # kvs else (k', v') # obj_set kvs k v)"

definition obj_get :: "jsobject \<Rightarrow> jsstring \<Rightarrow> jsstring option" where
  "obj_get obj k = map_of obj k"

text \<open>Object spread \<open>{...base, ...extra}\<close>.\<close>

definition obj_spread :: "jsobject \<Rightarrow> jsobject \<Rightarrow> jsobject" where
  "obj_spread base extra = fold (\<lambda>(k, v) acc. obj_set acc k v) extra base"


section \<open>The board (src/types/board.ts)\<close>

record item =
  item_text :: jsstring
  completed :: bool
  metadata :: "jsobject option"

record column =
  name :: jsstring
  items :: "item list"

record board =
  path :: jsstring
  settings :: jsobject
  columns :: "column list"

definition kanban_plugin :: jsstring where
  "kanban_plugin = js ''kanban-plugin''"


section \<open>Frontmatter\<close>

text \<open>
  Modelled from the spec: the frontmatter reader \<open>matter\<close> is the library gray-matter, which
  is not among the sources. The specification (4.3, 6) describes a leading metadata block
  delimited by lines of three dashes that holds \<open>key: value\<close> lines; the rest of the
  document is the body. The model follows the library's delimiter search: the document
  must start with three dashes not followed by a fourth, the block ends before the first
  line break followed by three dashes, and one line break after the closing delimiter is
  dropped from the body. Values are kept as strings; lines without a colon and comment
  lines are skipped, and no block makes the reader fail.
\<close>

definition yaml_line :: "jsstring \<Rightarrow> (jsstring \<times> jsstring) option" where
  "yaml_line l =
     (let t = trim l in
      if t = [] \<or> hd t = 0x23 then None
      else (case indexOf t [0x3A] of
              None \<Rightarrow> None
            | Some i \<Rightarrow> Some (trim (take i t), trim (drop (Suc i) t))))"

definition parse_yaml :: "jsstring \<Rightarrow> jsobject" where
  "parse_yaml block =
     fold (\<lambda>l acc. case yaml_line l of None \<Rightarrow> acc | Some (k, v) \<Rightarrow> obj_set acc k v)
       (split_on 10 block) []"

definition strip_line_break :: "jsstring \<Rightarrow> jsstring" where
  "strip_line_break s =
     (let s1 = (case s of c # cs \<Rightarrow> if c = 13 then cs else s | [] \<Rightarrow> s)
      in (case s1 of c # cs \<Rightarrow> if c = 10 then cs else s1 | [] \<Rightarrow> s1))"

definition matter :: "jsstring \<Rightarrow> jsobject \<times> jsstring" where
  "matter content =
     (if \<not> startsWith content (js ''---'') then ([], content)
      else if startsWith content (js ''----'') then ([], content)
      else let str = drop 3 content in
        (case indexOf str (10 # js ''---'') of
           None \<Rightarrow> (parse_yaml str, [])
         | Some i \<Rightarrow> (parse_yaml (take i str), strip_line_break (drop (i + 4) str))))"


section \<open>The parser (src/parsers/kanban.ts)\<close>

text \<open>
  \<open>line.match(/^##\s+(.+)$/)\<close>: the result is the captured group. After the two hashes
  \<open>\s+\<close> takes the longest run of whitespace that still leaves \<open>(.+)\<close> one code unit;
  \<open>(.+)\<close> must then reach the end of the line, and \<open>.\<close> matches no line terminator.
  When the whole remainder is whitespace, \<open>\s+\<close> gives its last code unit back to \<open>(.+)\<close>.
\<close>

definition headerMatch :: "jsstring \<Rightarrow> jsstring option" where
  "headerMatch line =
     (if startsWith line (js ''##'') then
        let after = drop 2 line;
            ws = takeWhile is_ws after;
            rest = dropWhile is_ws after
        in if ws = [] then None
           else if rest \<noteq> [] then (if \<forall>c \<in> set rest. \<not> is_lt c then Some rest else None)
           else if 2 \<le> length ws \<and> \<not> is_lt (last ws) then Some [last ws]
           else None
      else None)"

text \<open>
  \<open>line.match(/^-\s+\[([ x])\]\s+(.*)$/)\<close>: the result is the pair of captured groups.
  The first \<open>\s+\<close> must be followed by the bracket, so it is the whole whitespace run;
  the second is the whole run after the closing bracket, and \<open>(.*)\<close> is what remains, free
  of line terminators.
\<close>

definition itemMatch :: "jsstring \<Rightarrow> (jschar \<times> jsstring) option" where
  "itemMatch line =
     (case line of
        [] \<Rightarrow> None
      | d # after \<Rightarrow>
          if d \<noteq> 0x2D then None
          else let ws1 = takeWhile is_ws after; r1 = dropWhile is_ws after in
            if ws1 = [] then None
            else (case r1 of
                    lb # chk # rb # r2 \<Rightarrow>
                      if lb = 0x5B \<and> (chk = 0x20 \<or> chk = 0x78) \<and> rb = 0x5D then
                        let ws2 = takeWhile is_ws r2; rest = dropWhile is_ws r2 in
                        if ws2 = [] then None
                        else if \<forall>c \<in> set rest. \<not> is_lt c then Some (chk, rest)
                        else None
                      else None
                  | _ \<Rightarrow> None))"

definition push_current :: "column list \<Rightarrow> column option \<Rightarrow> column list" where
  "push_current cols cur = (case cur of None \<Rightarrow> cols | Some c \<Rightarrow> cols @ [c])"

text \<open>The loop over the lines, with the state \<open>columns\<close>, \<open>currentColumn\<close>; \<open>break\<close>
  returns the state as it is.\<close>

fun parse_lines :: "jsstring list \<Rightarrow> column list \<Rightarrow> column option
    \<Rightarrow> column list \<times> column option" where
  "parse_lines [] cols cur = (cols, cur)"
| "parse_lines (line # rest) cols cur =
     (case headerMatch line of
        Some cap \<Rightarrow>
          parse_lines rest (push_current cols cur) (Some \<lparr>name = trim cap, items = []\<rparr>)
      | None \<Rightarrow>
          (case (itemMatch line, cur) of
             (Some (chk, cap), Some c) \<Rightarrow>
               parse_lines rest cols
                 (Some (c\<lparr>items := items c @
                    [\<lparr>item_text = trim cap, completed = (chk = 0x78), metadata = None\<rparr>]\<rparr>))
           | _ \<Rightarrow>
               if startsWith (trim line) (js ''%%'') then (cols, cur)
               else parse_lines rest cols cur))"

definition parseKanban :: "jsstring \<Rightarrow> board" where
  "parseKanban content =
     (let (frontmatter, bodyContent) = matter content;
          plugin = (case obj_get frontmatter kanban_plugin of
                      None \<Rightarrow> js ''basic''
                    | Some v \<Rightarrow> if v = [] then js ''basic'' else v);
          settings = obj_spread [(kanban_plugin, plugin)] frontmatter;
          (cols, cur) = parse_lines (split_on 10 bodyContent) [] None
      in \<lparr>path = [], settings = settings, columns = push_current cols cur\<rparr>)"


section \<open>The serializer (src/parsers/kanban.ts)\<close>

text \<open>\<open>JSON.stringify\<close> on an object with string values (ECMAScript \<open>QuoteJSONString\<close>).
  Its output only feeds the trailing settings block.\<close>

definition hex_digit :: "nat \<Rightarrow> jschar" where
  "hex_digit n = (if n < 10 then of_nat (48 + n) else of_nat (87 + n))"

definition unicode_escape :: "jschar \<Rightarrow> jsstring" where
  "unicode_escape c =
     [0x5C, 0x75, hex_digit (unat c div 4096), hex_digit (unat c div 256 mod 16),
      hex_digit (unat c div 16 mod 16), hex_digit (unat c mod 16)]"

definition is_high_surrogate :: "jschar \<Rightarrow> bool" where
  "is_high_surrogate c = (0xD800 \<le> c \<and> c \<le> 0xDBFF)"

definition is_low_surrogate :: "jschar \<Rightarrow> bool" where
  "is_low_surrogate c = (0xDC00 \<le> c \<and> c \<le> 0xDFFF)"

fun json_quote_body :: "jsstring \<Rightarrow> jsstring" where
  "json_quote_body [] = []"
| "json_quote_body (c # cs) =
     (if c = 0x08 then [0x5C, 0x62] @ json_quote_body cs
      else if c = 0x09 then [0x5C, 0x74] @ json_quote_body cs
      else if c = 0x0A then [0x5C, 0x6E] @ json_quote_body cs
      else if c = 0x0C then [0x5C, 0x66] @ json_quote_body cs
      else if c = 0x0D then [0x5C, 0x72] @ json_quote_body cs
      else if c = 0x22 then [0x5C, 0x22] @ json_quote_body cs
      else if c = 0x5C then [0x5C, 0x5C] @ json_quote_body cs
      else if c < 0x20 then unicode_escape c @ json_quote_body cs
      else if is_high_surrogate c then
        (case cs of
           d # ds \<Rightarrow> if is_low_surrogate d then c # d # json_quote_body ds
                     else unicode_escape c @ json_quote_body cs
         | [] \<Rightarrow> unicode_escape c)
      else if is_low_surrogate c then unicode_escape c @ json_quote_body cs
      else c # json_quote_body cs)"

definition json_quote :: "jsstring \<Rightarrow> jsstring" where
  "json_quote s = [0x22] @ json_quote_body s @ [0x22]"

definition JSON_stringify :: "jsobject \<Rightarrow> jsstring" where
  "JSON_stringify obj =
     [0x7B] @ join [0x2C] (map (\<lambda>(k, v). json_quote k @ [0x3A] @ json_quote v) obj) @ [0x7D]"

text \<open>A template literal prints a missing property as \<open>undefined\<close>.\<close>

definition template_value :: "jsstring option \<Rightarrow> jsstring" where
  "template_value v = (case v of None \<Rightarrow> js ''undefined'' | Some s \<Rightarrow> s)"

definition item_line :: "item \<Rightarrow> jsstring" where
  "item_line i = js ''- '' @ (if completed i then js ''[x]'' else js ''[ ]'') @ js '' '' @ item_text i"

definition column_parts :: "column \<Rightarrow> jsstring list" where
  "column_parts c = [js ''## '' @ name c, []] @ map item_line (items c) @ [[]]"

definition serializeKanban :: "board \<Rightarrow> jsstring" where
  "serializeKanban b =
     join [10]
       ([js ''---'', [],
         js ''kanban-plugin: '' @ template_value (obj_get (settings b) kanban_plugin),
         [], js ''---'', []]
        @ concat (map column_parts (columns b))
        @ [js ''%% kanban:settings'', js ''```'', JSON_stringify (settings b), js ''```'',
           js ''%%'', []])"


section \<open>Paths (node:path, POSIX variant)\<close>

text \<open>
  Modelled from the spec: \<open>resolve\<close>, \<open>normalize\<close>, \<open>relative\<close>, \<open>isAbsolute\<close> and \<open>sep\<close> are
  imported from Node's \<open>path\<close> module, which is not among the sources. The specification
  (4.1) speaks of OS-path normalization and of the relative path between root and
  candidate. The model is the POSIX variant of the module, working on the segments
  between slashes: empty and \<open>.\<close> segments are dropped, \<open>..\<close> removes the segment before it.
  A backslash is an ordinary character of a segment there.
\<close>

definition sep :: jsstring where
  "sep = js ''/''"

definition isAbsolute :: "jsstring \<Rightarrow> bool" where
  "isAbsolute p = (case p of [] \<Rightarrow> False | c # cs \<Rightarrow> c = 0x2F)"

fun normalize_segments :: "bool \<Rightarrow> jsstring list \<Rightarrow> jsstring list \<Rightarrow> jsstring list" where
  "normalize_segments allowAboveRoot res [] = res"
| "normalize_segments allowAboveRoot res (s # ss) =
     (if s = [] \<or> s = js ''.'' then normalize_segments allowAboveRoot res ss
      else if s = js ''..'' then
        (if res \<noteq> [] \<and> last res \<noteq> js ''..''
           then normalize_segments allowAboveRoot (butlast res) ss
         else if allowAboveRoot then normalize_segments allowAboveRoot (res @ [js ''..'']) ss
         else normalize_segments allowAboveRoot res ss)
      else normalize_segments allowAboveRoot (res @ [s]) ss)"

definition normalizeString :: "jsstring \<Rightarrow> bool \<Rightarrow> jsstring" where
  "normalizeString p allowAboveRoot =
     join sep (normalize_segments allowAboveRoot [] (split_on 0x2F p))"

definition normalize_path :: "jsstring \<Rightarrow> jsstring" where
  "normalize_path p =
     (if p = [] then js ''.''
      else let absolute = isAbsolute p;
               trailingSeparator = (last p = 0x2F);
               n = normalizeString p (\<not> absolute)
           in if n = [] then (if absolute then js ''/''
                              else if trailingSeparator then js ''./'' else js ''.'')
              else let n' = (if trailingSeparator then n @ sep else n)
                   in if absolute then sep @ n' else n')"

text \<open>\<open>resolve\<close> reads its arguments from the right until one is absolute, and the
  working directory after them.\<close>

fun resolve_loop :: "jsstring list \<Rightarrow> jsstring \<Rightarrow> jsstring \<times> bool" where
  "resolve_loop [] resolvedPath = (resolvedPath, False)"
| "resolve_loop (p # ps) resolvedPath =
     (if p = [] then resolve_loop ps resolvedPath
      else if isAbsolute p then (p @ sep @ resolvedPath, True)
      else resolve_loop ps (p @ sep @ resolvedPath))"

definition resolve :: "jsstring \<Rightarrow> jsstring list \<Rightarrow> jsstring" where
  "resolve cwd paths =
     (let (resolvedPath, resolvedAbsolute) = resolve_loop (rev paths @ [cwd]) [];
          n = normalizeString resolvedPath (\<not> resolvedAbsolute)
      in if resolvedAbsolute then sep @ n
         else if n \<noteq> [] then n else js ''.'')"

fun strip_common :: "jsstring list \<Rightarrow> jsstring list \<Rightarrow> jsstring list \<times> jsstring list" where
  "strip_common (x # xs) (y # ys) =
     (if x = y then strip_common xs ys else (x # xs, y # ys))"
| "strip_common xs ys = (xs, ys)"

definition path_segments :: "jsstring \<Rightarrow> jsstring list" where
  "path_segments p = filter (\<lambda>s. s \<noteq> []) (split_on 0x2F p)"

definition relative :: "jsstring \<Rightarrow> jsstring \<Rightarrow> jsstring \<Rightarrow> jsstring" where
  "relative cwd from to =
     (if from = to then []
      else let f = resolve cwd [from]; t = resolve cwd [to] in
        if f = t then []
        else let (fs, ts) = strip_common (path_segments f) (path_segments t)
             in join sep (replicate (length fs) (js ''..'') @ ts))"


section \<open>The environment of a call\<close>

text \<open>
  What the code reads from outside: the files with their contents, whether a path can be
  written, \<open>fs.realpath\<close> (\<open>None\<close> when it throws), \<open>fs.access\<close>, the working directory,
  and Unicode normalization \<open>String.prototype.normalize('NFC')\<close>.
\<close>

record env =
  files :: "jsstring \<Rightarrow> jsstring option"
  can_write :: "jsstring \<Rightarrow> bool"
  realpath :: "jsstring \<Rightarrow> jsstring option"
  access :: "jsstring \<Rightarrow> bool"
  cwd :: jsstring
  nfc :: "jsstring \<Rightarrow> jsstring"


section \<open>Path validation (src/utils/path-validator.ts)\<close>

datatype path_error =
    VaultPathEmpty
  | TargetPathEmpty
  | PathNullByte
  | VaultNotAbsolute
  | VaultNotAccessible
  | EscapesVault
  | PathTooLong
  | SymlinkEscapes

definition MAX_PATH_LENGTH :: nat where
  "MAX_PATH_LENGTH = 4096"

text \<open>The two tests the source makes on a relative path, one after the other; both throw
  the same error.\<close>

definition escapes :: "jsstring \<Rightarrow> bool" where
  "escapes relativePath =
     (startsWith relativePath (js ''..'' @ sep) \<or> isAbsolute relativePath
      \<or> relativePath = js ''..'')"

definition validateVaultPath :: "env \<Rightarrow> jsstring \<Rightarrow> jsstring \<Rightarrow> path_error + jsstring" where
  "validateVaultPath e vaultPath targetPath =
     (if vaultPath = [] then Inl VaultPathEmpty
      else if targetPath = [] then Inl TargetPathEmpty
      else if js_includes vaultPath 0 \<or> js_includes targetPath 0 then Inl PathNullByte
      else let normalizedVault = nfc e vaultPath;
               normalizedTarget = nfc e targetPath
        in if \<not> isAbsolute normalizedVault then Inl VaultNotAbsolute
           else (case realpath e normalizedVault of
                   None \<Rightarrow> Inl VaultNotAccessible
                 | Some canonicalVault \<Rightarrow>
                     let candidatePath =
                           (if isAbsolute normalizedTarget then resolve (cwd e) [normalizedTarget]
                            else resolve (cwd e) [canonicalVault, normalizedTarget]);
                         normalizedCandidate = normalize_path candidatePath;
                         relativePath = relative (cwd e) canonicalVault normalizedCandidate
                     in if escapes relativePath then Inl EscapesVault
                        else if length normalizedCandidate > MAX_PATH_LENGTH then Inl PathTooLong
                        else if \<not> access e normalizedCandidate then Inr normalizedCandidate
                        else (case realpath e normalizedCandidate of
                                None \<Rightarrow> Inr normalizedCandidate
                              | Some canonicalTarget \<Rightarrow>
                                  if escapes (relative (cwd e) canonicalVault canonicalTarget)
                                  then Inl SymlinkEscapes
                                  else Inr canonicalTarget)))"


section \<open>Reading and writing a board (src/utils/file-ops.ts)\<close>

datatype tool_error =
    InvalidParams
  | PathError path_error
  | ReadFailed jsstring
  | WriteFailed jsstring
  | ColumnNotFound jsstring
  | ItemNotFound jsstring
  | TargetColumnNotFound jsstring
  | ColumnHasItems nat
  | SameColumn

definition bind_err :: "'e + 'a \<Rightarrow> ('a \<Rightarrow> 'e + 'b) \<Rightarrow> 'e + 'b" where
  "bind_err m f = (case m of Inl e \<Rightarrow> Inl e | Inr x \<Rightarrow> f x)"

definition secure_path :: "env \<Rightarrow> jsstring \<Rightarrow> jsstring \<Rightarrow> tool_error + jsstring" where
  "secure_path e vault target =
     (case validateVaultPath e vault target of Inl err \<Rightarrow> Inl (PathError err) | Inr p \<Rightarrow> Inr p)"

definition readKanbanFile :: "env \<Rightarrow> jsstring \<Rightarrow> tool_error + board" where
  "readKanbanFile e p =
     (case files e p of
        None \<Rightarrow> Inl (ReadFailed p)
      | Some content \<Rightarrow> Inr ((parseKanban content)\<lparr>path := p\<rparr>))"

text \<open>The write goes to \<open>path.tmp\<close> and is renamed onto \<open>path\<close>; when either step fails the
  temporary file is removed and the error is thrown.\<close>

definition writeKanbanFile :: "env \<Rightarrow> jsstring \<Rightarrow> board \<Rightarrow> tool_error + env" where
  "writeKanbanFile e p b =
     (let tempPath = p @ js ''.tmp''; content = serializeKanban b in
      if can_write e p
      then Inr (e\<lparr>files := ((files e)(tempPath := None))(p \<mapsto> content)\<rparr>)
      else Inl (WriteFailed p))"

text \<open>Every tool ends the same way: what it computed from the board it read is written
  back, and a failure before or in the write leaves the board files as they were. Write
  failures are a property of the path here (\<open>can_write\<close>).\<close>

definition commit :: "env \<Rightarrow> tool_error + (jsstring \<times> board \<times> 'r) \<Rightarrow> (tool_error + 'r) \<times> env" where
  "commit e r =
     (case r of
        Inl err \<Rightarrow> (Inl err, e)
      | Inr (p, b, res) \<Rightarrow>
          (case writeKanbanFile e p b of
             Inl err \<Rightarrow> (Inl err, e)
           | Inr e' \<Rightarrow> (Inr res, e')))"

text \<open>The schemas (src/schemas): \<open>z.string().min(1)\<close>, followed where the schema says so by
  the validator, which returns the trimmed text. Every rejection is \<open>InvalidParams\<close>.\<close>

definition nonempty_param :: "jsstring \<Rightarrow> tool_error + jsstring" where
  "nonempty_param s = (if length s < 1 then Inl InvalidParams else Inr s)"

definition column_param :: "jsstring \<Rightarrow> tool_error + jsstring" where
  "column_param s =
     (if length s < 1 then Inl InvalidParams
      else (case validateColumnName s of Inl err \<Rightarrow> Inl InvalidParams | Inr t \<Rightarrow> Inr t))"

definition text_param :: "jsstring \<Rightarrow> tool_error + jsstring" where
  "text_param s =
     (if length s < 1 then Inl InvalidParams
      else (case validateItemText s of Inl err \<Rightarrow> Inl InvalidParams | Inr t \<Rightarrow> Inr t))"

text \<open>\<open>xs.splice(i, 1)\<close> and \<open>xs.splice(i, 0, x)\<close>.\<close>

definition remove_at :: "nat \<Rightarrow> 'a list \<Rightarrow> 'a list" where
  "remove_at i xs = take i xs @ drop (Suc i) xs"

definition insert_at :: "nat \<Rightarrow> 'a \<Rightarrow> 'a list \<Rightarrow> 'a list" where
  "insert_at i x xs = take i xs @ [x] @ drop i xs"

definition has_name :: "jsstring \<Rightarrow> column \<Rightarrow> bool" where
  "has_name n col = (name col = n)"

definition has_text :: "jsstring \<Rightarrow> item \<Rightarrow> bool" where
  "has_text t i = (item_text i = t)"


section \<open>The tool kanbanItemReorder (src/tools/kanban/items/reorder.ts)\<close>

record KanbanItemReorderResult =
  rr_board :: jsstring
  rr_column :: jsstring
  rr_item :: item
  oldPosition :: nat
  newPosition :: nat

text \<open>The part of the tool between reading and writing. \<open>find\<close> returns the first column
  with the name, and the splices change that column of the board.\<close>

definition reorder_in_board :: "board \<Rightarrow> jsstring \<Rightarrow> jsstring \<Rightarrow> int
    \<Rightarrow> tool_error + (board \<times> item \<times> nat \<times> nat)" where
  "reorder_in_board b columnName txt position =
     (case findIndex (has_name columnName) (columns b) of
        None \<Rightarrow> Inl (ColumnNotFound columnName)
      | Some ci \<Rightarrow>
          let col = columns b ! ci in
          (case findIndex (has_text txt) (items col) of
             None \<Rightarrow> Inl (ItemNotFound txt)
           | Some oldPos \<Rightarrow>
               let it = items col ! oldPos;
                   removed = remove_at oldPos (items col);
                   newPos = nat (max 0 (min position (int (length removed))));
                   inserted = insert_at newPos it removed
               in Inr (b\<lparr>columns := (columns b)[ci := col\<lparr>items := inserted\<rparr>]\<rparr>,
                       it, oldPos, newPos)))"

definition KanbanItemReorderSchema :: "jsstring \<Rightarrow> jsstring \<Rightarrow> jsstring \<Rightarrow> jsstring \<Rightarrow> int
    \<Rightarrow> tool_error + (jsstring \<times> jsstring)" where
  "KanbanItemReorderSchema vault boardPath columnName txt position =
     bind_err (nonempty_param vault) (\<lambda>_.
     bind_err (nonempty_param boardPath) (\<lambda>_.
     bind_err (column_param columnName) (\<lambda>c.
     bind_err (text_param txt) (\<lambda>t.
     if position < 0 then Inl InvalidParams else Inr (c, t)))))"

definition kanbanItemReorder :: "env \<Rightarrow> jsstring \<Rightarrow> jsstring \<Rightarrow> jsstring \<Rightarrow> jsstring \<Rightarrow> int
    \<Rightarrow> (tool_error + KanbanItemReorderResult) \<times> env" where
  "kanbanItemReorder e vault boardArg columnName txt position =
     commit e
       (bind_err (KanbanItemReorderSchema vault boardArg columnName txt position) (\<lambda>(c, t).
        bind_err (secure_path e vault boardArg) (\<lambda>boardPath.
        bind_err (readKanbanFile e boardPath) (\<lambda>b.
        bind_err (reorder_in_board b c t position) (\<lambda>(b', it, oldPos, newPos).
        Inr (boardPath, b',
             \<lparr>rr_board = boardArg, rr_column = c, rr_item = it,
              oldPosition = oldPos, newPosition = newPos\<rparr>))))))"


section \<open>The tool kanbanColumnRemove (src/tools/kanban/columns/remove.ts)\<close>

record KanbanColumnRemoveResult =
  cr_board :: jsstring
  removedColumn :: jsstring
  itemsRemoved :: nat
  cr_targetColumn :: "jsstring option"
  itemsMoved :: "nat option"

text \<open>\<open>!validated.targetColumn\<close> holds for a missing and for an empty target name.\<close>

definition remove_in_board :: "board \<Rightarrow> jsstring \<Rightarrow> jsstring option
    \<Rightarrow> tool_error + (board \<times> nat)" where
  "remove_in_board b columnName targetColumn =
     (case findIndex (has_name columnName) (columns b) of
        None \<Rightarrow> Inl (ColumnNotFound columnName)
      | Some columnIndex \<Rightarrow>
          let col = columns b ! columnIndex;
              itemCount = length (items col)
          in if itemCount > 0 then
               (case targetColumn of
                  None \<Rightarrow> Inl (ColumnHasItems itemCount)
                | Some tname \<Rightarrow>
                    if tname = [] then Inl (ColumnHasItems itemCount)
                    else (case findIndex (has_name tname) (columns b) of
                            None \<Rightarrow> Inl (TargetColumnNotFound tname)
                          | Some ti \<Rightarrow>
                              if tname = columnName then Inl SameColumn
                              else
                                let tcol = columns b ! ti;
                                    moved = (columns b)
                                      [ti := tcol\<lparr>items := items tcol @ items col\<rparr>]
                                in Inr (b\<lparr>columns := remove_at columnIndex moved\<rparr>,
                                        itemCount)))
             else Inr (b\<lparr>columns := remove_at columnIndex (columns b)\<rparr>, itemCount))"

definition KanbanColumnRemoveSchema :: "jsstring \<Rightarrow> jsstring \<Rightarrow> jsstring \<Rightarrow> jsstring option
    \<Rightarrow> tool_error + (jsstring \<times> jsstring option)" where
  "KanbanColumnRemoveSchema vault boardPath columnName targetColumn =
     bind_err (nonempty_param vault) (\<lambda>_.
     bind_err (nonempty_param boardPath) (\<lambda>_.
     bind_err (column_param columnName) (\<lambda>n.
     (case targetColumn of
        None \<Rightarrow> Inr (n, None)
      | Some v \<Rightarrow>
          if v = [] then Inr (n, Some v)
          else (case validateColumnName v of
                  Inl err \<Rightarrow> Inl InvalidParams
                | Inr t \<Rightarrow> Inr (n, Some t))))))"

definition kanbanColumnRemove :: "env \<Rightarrow> jsstring \<Rightarrow> jsstring \<Rightarrow> jsstring \<Rightarrow> jsstring option
    \<Rightarrow> (tool_error + KanbanColumnRemoveResult) \<times> env" where
  "kanbanColumnRemove e vault boardArg columnName targetColumn =
     commit e
       (bind_err (KanbanColumnRemoveSchema vault boardArg columnName targetColumn) (\<lambda>(n, t).
        bind_err (secure_path e vault boardArg) (\<lambda>boardPath.
        bind_err (readKanbanFile e boardPath) (\<lambda>b.
        bind_err (remove_in_board b n t) (\<lambda>(b', itemCount).
        let given = (case t of None \<Rightarrow> False | Some v \<Rightarrow> v \<noteq> []) \<and> itemCount > 0 in
        Inr (boardPath, b',
             \<lparr>cr_board = boardArg, removedColumn = n, itemsRemoved = itemCount,
              cr_targetColumn = (if given then t else None),
              itemsMoved = (if given then Some itemCount else None)\<rparr>))))))"


section \<open>The tool kanbanArchiveDone (src/tools/kanban/bulk/archive.ts)\<close>

text \<open>The archive column is the first column with the archive name, appended when there
  is none. Every column with another name gives up its completed items; they are
  appended to the archive column in the order collected.\<close>

definition archive_in_board :: "board \<Rightarrow> jsstring \<Rightarrow> board" where
  "archive_in_board b archiveColumnName =
     (let cols1 = (case findIndex (has_name archiveColumnName) (columns b) of
                     None \<Rightarrow> columns b @ [\<lparr>name = archiveColumnName, items = []\<rparr>]
                   | Some k \<Rightarrow> columns b);
          archivedItems = concat (map (\<lambda>c. filter (\<lambda>i. completed i = True) (items c))
                                   (filter (\<lambda>c. name c \<noteq> archiveColumnName) cols1));
          cols2 = map (\<lambda>c. if name c = archiveColumnName then c
                            else c\<lparr>items := filter (\<lambda>i. completed i \<noteq> True) (items c)\<rparr>) cols1
      in (case findIndex (has_name archiveColumnName) cols2 of
            None \<Rightarrow> b\<lparr>columns := cols2\<rparr>
          | Some k \<Rightarrow>
              b\<lparr>columns := cols2[k := (cols2 ! k)\<lparr>items := items (cols2 ! k) @ archivedItems\<rparr>]\<rparr>))"

text \<open>The schema defaults a missing \<open>archiveColumn\<close> to \<open>Archive\<close>, and the tool replaces
  an empty one by \<open>Archive\<close> as well.\<close>

definition archive_name :: "jsstring option \<Rightarrow> jsstring" where
  "archive_name a = (case a of None \<Rightarrow> js ''Archive''
                     | Some v \<Rightarrow> if v = [] then js ''Archive'' else v)"

definition kanbanArchiveDone :: "env \<Rightarrow> jsstring \<Rightarrow> jsstring \<Rightarrow> jsstring option
    \<Rightarrow> (tool_error + board) \<times> env" where
  "kanbanArchiveDone e vault boardArg archiveColumn =
     commit e
       (bind_err (nonempty_param vault) (\<lambda>_.
        bind_err (nonempty_param boardArg) (\<lambda>_.
        bind_err (secure_path e vault boardArg) (\<lambda>boardPath.
        bind_err (readKanbanFile e boardPath) (\<lambda>b.
        let b' = archive_in_board b (archive_name archiveColumn)
        in Inr (boardPath, b', b'))))))"


section \<open>The tool kanbanMerge (in src/tools/kanban/bulk/clone.ts)\<close>

text \<open>The inner loop: an item is pushed unless some item of the target column, as it is
  at that moment, has the same text.\<close>

fun merge_items :: "item list \<Rightarrow> item list \<Rightarrow> item list" where
  "merge_items target [] = target"
| "merge_items target (i # rest) =
     (let isDuplicate = (\<exists>t \<in> set target. item_text t = item_text i)
      in merge_items (if \<not> isDuplicate then target @ [i] else target) rest)"

definition merge_column :: "column list \<Rightarrow> column \<Rightarrow> column list" where
  "merge_column cols sourceColumn =
     (case findIndex (has_name (name sourceColumn)) cols of
        None \<Rightarrow> cols @ [\<lparr>name = name sourceColumn,
                            items = merge_items [] (items sourceColumn)\<rparr>]
      | Some k \<Rightarrow>
          cols[k := (cols ! k)\<lparr>items := merge_items (items (cols ! k)) (items sourceColumn)\<rparr>])"

fun merge_columns :: "column list \<Rightarrow> column list \<Rightarrow> column list" where
  "merge_columns cols [] = cols"
| "merge_columns cols (sc # rest) = merge_columns (merge_column cols sc) rest"

definition merge_board :: "board \<Rightarrow> board \<Rightarrow> board" where
  "merge_board target source = target\<lparr>columns := merge_columns (columns target) (columns source)\<rparr>"

text \<open>The outer loop validates and reads one source board after the other; a failure ends
  the tool before anything is written.\<close>

fun merge_sources :: "env \<Rightarrow> jsstring \<Rightarrow> jsstring list \<Rightarrow> board \<Rightarrow> tool_error + board" where
  "merge_sources e vault [] target = Inr target"
| "merge_sources e vault (sourceBoardPath # rest) target =
     (case secure_path e vault sourceBoardPath of
        Inl err \<Rightarrow> Inl err
      | Inr sourcePath \<Rightarrow>
          (case readKanbanFile e sourcePath of
             Inl err \<Rightarrow> Inl err
           | Inr sourceBoard \<Rightarrow> merge_sources e vault rest (merge_board target sourceBoard)))"

definition KanbanMergeSchema :: "jsstring \<Rightarrow> jsstring list \<Rightarrow> jsstring \<Rightarrow> tool_error + unit" where
  "KanbanMergeSchema vault sourceBoards targetBoard =
     (if length vault < 1 \<or> (\<exists>s \<in> set sourceBoards. length s < 1)
         \<or> length sourceBoards < 1 \<or> length targetBoard < 1
      then Inl InvalidParams else Inr ())"

definition new_board :: "jsstring \<Rightarrow> board" where
  "new_board targetPath =
     \<lparr>path = targetPath, settings = [(kanban_plugin, js ''basic'')], columns = []\<rparr>"

definition kanbanMerge :: "env \<Rightarrow> jsstring \<Rightarrow> jsstring list \<Rightarrow> jsstring
    \<Rightarrow> (tool_error + board) \<times> env" where
  "kanbanMerge e vault sourceBoards targetBoard =
     commit e
       (bind_err (KanbanMergeSchema vault sourceBoards targetBoard) (\<lambda>_.
        bind_err (secure_path e vault targetBoard) (\<lambda>targetPath.
        let target = (case readKanbanFile e targetPath of
                        Inl err \<Rightarrow> new_board targetPath
                      | Inr b \<Rightarrow> b)
        in bind_err (merge_sources e vault sourceBoards target) (\<lambda>merged.
           Inr (targetPath, merged, merged)))))"


section \<open>Example boards\<close>

definition mk_item :: "string \<Rightarrow> bool \<Rightarrow> item" where
  "mk_item s c = \<lparr>item_text = js s, completed = c, metadata = None\<rparr>"

text \<open>Scenario A of the specification: the document and the board it stands for.\<close>

definition scenario_A_document :: jsstring where
  "scenario_A_document =
     join [10]
       [js ''---'', js ''kanban-plugin: basic'', js ''---'', [],
        js ''## Backlog'', [], js ''- [ ] Task 1'', js ''- [ ] Task 2'', [],
        js ''## Done'', [], js ''- [x] Done task'', []]"

definition scenario_A_board :: board where
  "scenario_A_board =
     \<lparr>path = [], settings = [(kanban_plugin, js ''basic'')],
      columns = [\<lparr>name = js ''Backlog'',
                   items = [mk_item ''Task 1'' False, mk_item ''Task 2'' False]\<rparr>,
                 \<lparr>name = js ''Done'', items = [mk_item ''Done task'' True]\<rparr>]\<rparr>"

text \<open>A board whose first column is empty.\<close>

definition empty_column_board :: board where
  "empty_column_board =
     \<lparr>path = [], settings = [(kanban_plugin, js ''basic'')],
      columns = [\<lparr>name = js ''Review'', items = []\<rparr>,
                 \<lparr>name = js ''Done'', items = [mk_item ''Done task'' True]\<rparr>]\<rparr>"


section \<open>Example environment\<close>

text \<open>A POSIX host on which the directory \<open>/vault\<close> exists, is no symbolic link and is
  empty; strings are already in normal form.\<close>

definition vault_env :: env where
  "vault_env =
     \<lparr>files = (\<lambda>p. None), can_write = (\<lambda>p. True),
      realpath = (\<lambda>p. if p = js ''/vault'' \<or> p = js ''/vault/'' then Some (js ''/vault'')
                        else None),
      access = (\<lambda>p. False), cwd = js ''/'', nfc = (\<lambda>s. s)\<rparr>"

text \<open>The drive-letter path of Scenario D: \<open>C:\<close>, \<open>Windows\<close> and \<open>System32\<close>, separated by backslashes.\<close>

definition windows_path :: jsstring where
  "windows_path = js ''C:'' @ [0x5C] @ js ''Windows'' @ [0x5C] @ js ''System32''"



text \<open>A POSIX host on which \<open>/vault\<close> is a symbolic link to the directory \<open>/etc\<close>, which
  holds the file \<open>passwd\<close>.\<close>

definition symlink_env :: env where
  "symlink_env =
     \<lparr>files = (\<lambda>p. None), can_write = (\<lambda>p. True),
      realpath = (\<lambda>p. if p = js ''/vault'' \<or> p = js ''/vault/'' \<or> p = js ''/etc''
                          then Some (js ''/etc'')
                        else if p = js ''/etc/passwd'' then Some (js ''/etc/passwd'')
                        else None),
      access = (\<lambda>p. p = js ''/vault'' \<or> p = js ''/vault/'' \<or> p = js ''/etc''
                        \<or> p = js ''/etc/passwd''),
      cwd = js ''/'', nfc = (\<lambda>s. s)\<rparr>"

text \<open>The same host with one board file, \<open>/vault/a.md\<close>, holding the document of
  Scenario A.\<close>

definition merge_env :: env where
  "merge_env =
     \<lparr>files = (\<lambda>p. if p = js ''/vault/a.md'' then Some scenario_A_document else None),
      can_write = (\<lambda>p. True),
      realpath = (\<lambda>p. if p = js ''/vault'' \<or> p = js ''/vault/a.md'' then Some p else None),
      access = (\<lambda>p. p = js ''/vault'' \<or> p = js ''/vault/a.md''),
      cwd = js ''/'', nfc = (\<lambda>s. s)\<rparr>"



text \<open>A document with the header \<open>## X\<close> twice, a document with a header after a line
  that starts with the settings sentinel, and a board with an item text that holds the
  line separator U+2028 between \<open>a\<close> and \<open>b\<close>.\<close>

definition duplicate_header_document :: jsstring where
  "duplicate_header_document =
     join [10]
       [js ''---'', js ''kanban-plugin: basic'', js ''---'', [],
        js ''## X'', js ''- [ ] a'', js ''## X'', js ''- [x] b'', []]"

definition sentinel_document :: jsstring where
  "sentinel_document =
     join [10]
       [js ''---'', js ''kanban-plugin: basic'', js ''---'', [],
        js ''%% note'', js ''## X'', []]"

definition separator_board :: board where
  "separator_board =
     \<lparr>path = [], settings = [(kanban_plugin, js ''basic'')],
      columns = [\<lparr>name = js ''A'',
                   items = [\<lparr>item_text = [0x61, 0x2028, 0x62], completed = False,
                             metadata = None\<rparr>]\<rparr>]\<rparr>"


section \<open>What the parser returns for a serialized board\<close>

text \<open>The parser sets no metadata, and it recognises a name or a text that is non-empty,
  trimmed and free of line terminators.\<close>

definition parsed_item :: "item \<Rightarrow> item" where
  "parsed_item i = i\<lparr>metadata := None\<rparr>"

definition parsed_column :: "column \<Rightarrow> column" where
  "parsed_column c = c\<lparr>items := map parsed_item (items c)\<rparr>"

definition line_text :: "jsstring \<Rightarrow> bool" where
  "line_text s = (s \<noteq> [] \<and> trim s = s \<and> (\<forall>c \<in> set s. \<not> is_lt c))"


section \<open>Validators: newline handling\<close>

lemma containsControlCharacters_iff:
  "containsControlCharacters t a =
     (\<exists>c \<in> set t. c \<noteq> 9 \<and> \<not> (a \<and> (c = 10 \<or> c = 13)) \<and> c < 32)"
  by (induction t a rule: containsControlCharacters.induct) auto

text \<open>
  C5 (amended). For every string \<open>s\<close> that itself holds no null byte and no control character
  other than tab, LF and CR, and whose trimmed form is non-empty, at most 10,240 code units
  long and free of LF and CR, \<open>validateItemText s\<close> returns \<open>trim s\<close>: newlines in the
  surrounding whitespace are accepted because they are looked for after trimming. The null
  byte and control character checks, however, run on the untrimmed string.
  \<open>validateColumnName s\<close> fails whenever \<open>s\<close> holds LF or CR anywhere, and whatever it
  returns is \<open>trim s\<close> of at most 200 code units.
\<close>

theorem C5_validator_newlines:
  "(\<not> js_includes s 0 \<and> \<not> containsControlCharacters s True
      \<and> trim s \<noteq> [] \<and> length (trim s) \<le> 10240
      \<and> \<not> js_includes (trim s) 10 \<and> \<not> js_includes (trim s) 13
    \<longrightarrow> validateItemText s = Inr (trim s))
   \<and> (js_includes s 10 \<or> js_includes s 13 \<longrightarrow> (\<exists>e. validateColumnName s = Inl e))
   \<and> (length (trim s) > 200 \<longrightarrow> (\<exists>e. validateColumnName s = Inl e))
   \<and> (\<forall>r. validateColumnName s = Inr r \<longrightarrow> r = trim s \<and> length r \<le> 200)"
  by (auto simp: validateItemText_def validateColumnName_def containsNullByte_def
      MAX_ITEM_TEXT_LENGTH_def MAX_COLUMN_NAME_LENGTH_def Let_def)

text \<open>The theorem at \<open>"\na\n"\<close> (accepted as item text, refused as column name) and at
  \<open>"Todo"\<close> (accepted as column name).\<close>

theorem C5_validator_newlines_witness:
  "validateItemText [10, 97, 10] = Inr [97]
   \<and> (\<exists>e. validateColumnName [10, 97, 10] = Inl e)
   \<and> validateColumnName (js ''Todo'') = Inr (js ''Todo'')"
proof -
  have t: "trim [10, 97, 10] = [97]"
    by (simp add: trim_def is_ws_def)
  have c: "validateColumnName (js ''Todo'') = Inr (js ''Todo'')"
    by (simp add: validateColumnName_def containsNullByte_def js_includes_def js_def
        trim_def is_ws_def MAX_COLUMN_NAME_LENGTH_def)
  show ?thesis
    using C5_validator_newlines [of "[10, 97, 10]"] t c
    by (simp add: js_includes_def)
qed

text \<open>
  C5 as stated fails: the string VT followed by \<open>a\<close> has the trimmed form \<open>a\<close>, which is
  non-empty, short and free of null bytes, newlines and control characters, yet
  \<open>validateItemText\<close> refuses it, because the vertical tab is seen before trimming.
\<close>

theorem C5_validator_newlines_counterexample:
  "trim [11, 97] = [97] \<and> length (trim [11, 97]) \<le> 10240 \<and> free_of_controls (trim [11, 97])
   \<and> validateItemText [11, 97] = Inl ControlCharacters"
  by (simp add: trim_def is_ws_def free_of_controls_def js_includes_def
      validateItemText_def containsNullByte_def)

section \<open>Evaluation and list lemmas\<close>

lemmas string_eval = js_def trim_def is_ws_def is_lt_def
lemmas parse_eval = parseKanban_def matter_def parse_yaml_def yaml_line_def strip_line_break_def
  headerMatch_def itemMatch_def push_current_def obj_spread_def obj_get_def kanban_plugin_def

lemma findIndex_Some_iff:
  "findIndex P xs = Some i \<longleftrightarrow> i < length xs \<and> P (xs ! i) \<and> (\<forall>j<i. \<not> P (xs ! j))"
proof (induction xs arbitrary: i)
  case Nil
  then show ?case by simp
next
  case (Cons x xs)
  show ?case
  proof (cases "P x")
    case True
    then show ?thesis by (cases i) auto
  next
    case False
    show ?thesis
    proof (cases i)
      case 0
      with False show ?thesis by simp
    next
      case (Suc n)
      with False Cons.IH [of n] show ?thesis
        by (auto simp: less_Suc_eq_0_disj)
    qed
  qed
qed

lemma findIndex_None_iff: "findIndex P xs = None \<longleftrightarrow> (\<forall>x \<in> set xs. \<not> P x)"
  by (induction xs) auto

lemma length_remove_at: "i < length xs \<Longrightarrow> length (remove_at i xs) = length xs - 1"
  by (simp add: remove_at_def)

lemma length_insert_at: "length (insert_at p x xs) = Suc (length xs)"
  by (simp add: insert_at_def)

lemma nth_insert_at: "p \<le> length xs \<Longrightarrow> insert_at p x xs ! p = x"
  by (simp add: insert_at_def nth_append)

lemma remove_insert_at: "p \<le> length xs \<Longrightarrow> remove_at p (insert_at p x xs) = xs"
  by (simp add: insert_at_def remove_at_def)

lemma last_insert_at: "length xs \<le> p \<Longrightarrow> last (insert_at p x xs) = x"
  by (simp add: insert_at_def)


section \<open>Reordering an item\<close>

text \<open>
  C4. Let \<open>ci\<close> be the first column named \<open>cn\<close> and \<open>k\<close> the first item of that column
  with the text \<open>txt\<close>, and let the position be non-negative. Then the item is taken out
  and put back at index \<open>p = min position n\<close>, where \<open>n\<close> is the number of items left after
  the removal: the column keeps its length, holds the item at \<open>p\<close>, and without it is the
  old column without its item \<open>k\<close>; nothing else in the board changes. A position beyond
  \<open>n\<close> puts the item at the last index. Without such a column, or without such an item in
  it, the operation fails with a not-found error.
\<close>

theorem C4_reorder:
  fixes b :: board
  defines "cols \<equiv> columns b"
  assumes pos: "0 \<le> position"
  shows "((\<forall>c \<in> set cols. name c \<noteq> cn) \<longrightarrow>
            reorder_in_board b cn txt position = Inl (ColumnNotFound cn))
     \<and> (\<forall>ci. ci < length cols \<and> name (cols ! ci) = cn \<and> (\<forall>j<ci. name (cols ! j) \<noteq> cn) \<longrightarrow>
          ((\<forall>i \<in> set (items (cols ! ci)). item_text i \<noteq> txt) \<longrightarrow>
             reorder_in_board b cn txt position = Inl (ItemNotFound txt))
        \<and> (\<forall>k. k < length (items (cols ! ci)) \<and> item_text (items (cols ! ci) ! k) = txt
               \<and> (\<forall>j<k. item_text (items (cols ! ci) ! j) \<noteq> txt) \<longrightarrow>
             (\<exists>b'. let old = items (cols ! ci);
                       n = length old - 1;
                       p = min (nat position) n;
                       new = items (columns b' ! ci)
                   in reorder_in_board b cn txt position = Inr (b', old ! k, k, p)
                      \<and> path b' = path b \<and> settings b' = settings b
                      \<and> length (columns b') = length cols
                      \<and> (\<forall>j. j \<noteq> ci \<longrightarrow> columns b' ! j = cols ! j)
                      \<and> name (columns b' ! ci) = cn
                      \<and> length new = length old
                      \<and> new ! p = old ! k
                      \<and> remove_at p new = remove_at k old
                      \<and> (int n < position \<longrightarrow> p = length new - 1 \<and> last new = old ! k))))"
proof (intro conjI allI impI)
  assume "\<forall>c \<in> set cols. name c \<noteq> cn"
  then have "findIndex (has_name cn) (columns b) = None"
    by (simp add: findIndex_None_iff has_name_def cols_def)
  then show "reorder_in_board b cn txt position = Inl (ColumnNotFound cn)"
    by (simp add: reorder_in_board_def)
next
  fix ci
  assume c: "ci < length cols \<and> name (cols ! ci) = cn \<and> (\<forall>j<ci. name (cols ! j) \<noteq> cn)"
  then have fc: "findIndex (has_name cn) (columns b) = Some ci"
    by (simp add: findIndex_Some_iff has_name_def cols_def)
  {
    assume "\<forall>i \<in> set (items (cols ! ci)). item_text i \<noteq> txt"
    then have "findIndex (has_text txt) (items (columns b ! ci)) = None"
      by (simp add: findIndex_None_iff has_text_def cols_def)
    with fc show "reorder_in_board b cn txt position = Inl (ItemNotFound txt)"
      by (simp add: reorder_in_board_def)
  }
  fix k
  assume k: "k < length (items (cols ! ci)) \<and> item_text (items (cols ! ci) ! k) = txt
               \<and> (\<forall>j<k. item_text (items (cols ! ci) ! j) \<noteq> txt)"
  define old where "old = items (cols ! ci)"
  define removed where "removed = remove_at k old"
  define p where "p = min (nat position) (length old - 1)"
  define new where "new = insert_at p (old ! k) removed"
  define b' where "b' = b\<lparr>columns := (columns b)[ci := (cols ! ci)\<lparr>items := new\<rparr>]\<rparr>"
  have fk: "findIndex (has_text txt) (items (columns b ! ci)) = Some k"
    using k by (simp add: findIndex_Some_iff has_text_def cols_def)
  have lr: "length removed = length old - 1"
    using k by (simp add: removed_def old_def length_remove_at)
  have pn: "nat (max 0 (min position (int (length removed)))) = p"
    using pos by (simp add: p_def lr min_def)
  have ple: "p \<le> length removed"
    by (simp add: p_def lr)
  have r: "reorder_in_board b cn txt position = Inr (b', old ! k, k, p)"
    using fc fk pn
    by (simp add: reorder_in_board_def Let_def b'_def new_def removed_def old_def cols_def)
  have ci: "ci < length (columns b)"
    using c by (simp add: cols_def)
  have n: "items (columns b' ! ci) = new"
    using ci by (simp add: b'_def)
  have ln: "length new = length old"
    using k lr by (cases old) (simp_all add: new_def length_insert_at old_def)
  have "path b' = path b" "settings b' = settings b" "length (columns b') = length cols"
    "\<forall>j. j \<noteq> ci \<longrightarrow> columns b' ! j = cols ! j" "name (columns b' ! ci) = cn"
    using ci c by (simp_all add: b'_def cols_def)
  moreover have "new ! p = old ! k"
    using ple by (simp add: new_def nth_insert_at)
  moreover have "remove_at p new = remove_at k old"
    using ple by (simp add: new_def remove_insert_at removed_def)
  moreover have "int (length old - 1) < position \<longrightarrow> p = length new - 1 \<and> last new = old ! k"
    using lr ln by (auto simp: p_def new_def last_insert_at)
  ultimately show "\<exists>b'. let old = items (cols ! ci);
                       n = length old - 1;
                       p = min (nat position) n;
                       new = items (columns b' ! ci)
                   in reorder_in_board b cn txt position = Inr (b', old ! k, k, p)
                      \<and> path b' = path b \<and> settings b' = settings b
                      \<and> length (columns b') = length cols
                      \<and> (\<forall>j. j \<noteq> ci \<longrightarrow> columns b' ! j = cols ! j)
                      \<and> name (columns b' ! ci) = cn
                      \<and> length new = length old
                      \<and> new ! p = old ! k
                      \<and> remove_at p new = remove_at k old
                      \<and> (int n < position \<longrightarrow> p = length new - 1 \<and> last new = old ! k)"
    using r n ln unfolding Let_def old_def [symmetric] p_def [symmetric]
    by (intro exI [of _ b']) simp
qed

text \<open>The theorem on the board of Scenario A: \<open>Task 1\<close> sent to position 999 lands at the
  last index 1; an unknown item and an unknown column are reported.\<close>

theorem C4_reorder_witness:
  "(\<exists>b'. reorder_in_board scenario_A_board (js ''Backlog'') (js ''Task 1'') 999
            = Inr (b', mk_item ''Task 1'' False, 0, 1)
         \<and> items (columns b' ! 0) = [mk_item ''Task 2'' False, mk_item ''Task 1'' False])
   \<and> reorder_in_board scenario_A_board (js ''Backlog'') (js ''Task 9'') 999
        = Inl (ItemNotFound (js ''Task 9''))
   \<and> reorder_in_board scenario_A_board (js ''Review'') (js ''Task 1'') 999
        = Inl (ColumnNotFound (js ''Review''))"
proof -
  have p: "(0::int) \<le> 999" by simp
  note t1 = C4_reorder [OF p, of scenario_A_board "js ''Backlog''" "js ''Task 1''"]
  note t2 = C4_reorder [OF p, of scenario_A_board "js ''Backlog''" "js ''Task 9''"]
  note t3 = C4_reorder [OF p, of scenario_A_board "js ''Review''" "js ''Task 1''"]
  have c: "columns scenario_A_board =
      [\<lparr>name = js ''Backlog'', items = [mk_item ''Task 1'' False, mk_item ''Task 2'' False]\<rparr>,
       \<lparr>name = js ''Done'', items = [mk_item ''Done task'' True]\<rparr>]"
    by (simp add: scenario_A_board_def)
  from t1 [THEN conjunct2, THEN spec, of 0, THEN mp, THEN conjunct2, THEN spec, of 0, THEN mp]
  obtain b' where b': "reorder_in_board scenario_A_board (js ''Backlog'') (js ''Task 1'') 999
            = Inr (b', mk_item ''Task 1'' False, 0, 1)"
     "length (items (columns b' ! 0)) = 2" "items (columns b' ! 0) ! 1 = mk_item ''Task 1'' False"
     "remove_at 1 (items (columns b' ! 0)) = [mk_item ''Task 2'' False]"
    by (auto simp: c mk_item_def js_def Let_def remove_at_def)
  have "items (columns b' ! 0) = [mk_item ''Task 2'' False, mk_item ''Task 1'' False]"
  proof -
    obtain x y where xy: "items (columns b' ! 0) = [x, y]"
      using b'(2) by (metis (no_types) length_0_conv length_Suc_conv numeral_2_eq_2)
    with b'(3,4) show ?thesis by (simp add: remove_at_def)
  qed
  moreover from t2 [THEN conjunct2, THEN spec, of 0, THEN mp, THEN conjunct1, THEN mp]
  have "reorder_in_board scenario_A_board (js ''Backlog'') (js ''Task 9'') 999
        = Inl (ItemNotFound (js ''Task 9''))"
    by (simp add: c mk_item_def js_def)
  moreover from t3 [THEN conjunct1, THEN mp]
  have "reorder_in_board scenario_A_board (js ''Review'') (js ''Task 1'') 999
        = Inl (ColumnNotFound (js ''Review''))"
    by (simp add: c js_def)
  ultimately show ?thesis using b'(1) by blast
qed


section \<open>Removing a column\<close>

lemma commit_failure: "commit e r = (Inl err, e') \<Longrightarrow> e' = e"
  by (auto simp: commit_def split: sum.splits prod.splits)

text \<open>
  C6 (amended). Let \<open>ci\<close> be the first column named \<open>n\<close>. When that column holds at least
  one item and a non-empty target name is supplied, the removal fails if the target is
  \<open>n\<close> itself and fails with a not-found error if no column has the target name. When
  the column holds no item the target is not looked at and the column is removed. A
  failing call writes nothing.
\<close>

theorem C6_column_remove:
  fixes b :: board
  defines "cols \<equiv> columns b"
  assumes ci: "ci < length cols" "name (cols ! ci) = n" "\<forall>j<ci. name (cols ! j) \<noteq> n"
  shows "(items (cols ! ci) \<noteq> [] \<and> t \<noteq> [] \<and> t = n \<longrightarrow>
            remove_in_board b n (Some t) = Inl SameColumn)
     \<and> (items (cols ! ci) \<noteq> [] \<and> t \<noteq> [] \<and> (\<forall>c \<in> set cols. name c \<noteq> t) \<longrightarrow>
            remove_in_board b n (Some t) = Inl (TargetColumnNotFound t))
     \<and> (items (cols ! ci) = [] \<longrightarrow>
            remove_in_board b n tc = Inr (b\<lparr>columns := remove_at ci cols\<rparr>, 0))
     \<and> (\<forall>err e'. kanbanColumnRemove e vault boardArg n tc = (Inl err, e') \<longrightarrow> e' = e)"
proof -
  have f: "findIndex (has_name n) (columns b) = Some ci"
    using ci by (simp add: findIndex_Some_iff has_name_def cols_def)
  have "items (cols ! ci) \<noteq> [] \<and> t \<noteq> [] \<and> t = n \<longrightarrow>
            remove_in_board b n (Some t) = Inl SameColumn"
    using f by (auto simp: remove_in_board_def Let_def cols_def)
  moreover have "items (cols ! ci) \<noteq> [] \<and> t \<noteq> [] \<and> (\<forall>c \<in> set cols. name c \<noteq> t) \<longrightarrow>
            remove_in_board b n (Some t) = Inl (TargetColumnNotFound t)"
  proof
    assume a: "items (cols ! ci) \<noteq> [] \<and> t \<noteq> [] \<and> (\<forall>c \<in> set cols. name c \<noteq> t)"
    then have "findIndex (has_name t) (columns b) = None"
      by (simp add: findIndex_None_iff has_name_def cols_def)
    with f a show "remove_in_board b n (Some t) = Inl (TargetColumnNotFound t)"
      by (simp add: remove_in_board_def Let_def cols_def)
  qed
  moreover have "items (cols ! ci) = [] \<longrightarrow>
            remove_in_board b n tc = Inr (b\<lparr>columns := remove_at ci cols\<rparr>, 0)"
    using f by (simp add: remove_in_board_def Let_def cols_def)
  moreover have "\<forall>err e'. kanbanColumnRemove e vault boardArg n tc = (Inl err, e') \<longrightarrow> e' = e"
    unfolding kanbanColumnRemove_def by (blast dest: commit_failure)
  ultimately show ?thesis by blast
qed

text \<open>The theorem on the board of Scenario A, whose column \<open>Done\<close> holds an item, and on a
  board whose column \<open>Review\<close> is empty.\<close>

theorem C6_column_remove_witness:
  "remove_in_board scenario_A_board (js ''Done'') (Some (js ''Done'')) = Inl SameColumn
   \<and> remove_in_board scenario_A_board (js ''Done'') (Some (js ''Review''))
       = Inl (TargetColumnNotFound (js ''Review''))
   \<and> remove_in_board empty_column_board (js ''Review'') (Some (js ''Review''))
       = Inr (empty_column_board\<lparr>columns := [\<lparr>name = js ''Done'', items = [mk_item ''Done task'' True]\<rparr>]\<rparr>, 0)"
proof -
  have a: "1 < length (columns scenario_A_board)"
    "name (columns scenario_A_board ! 1) = js ''Done''"
    "\<forall>j<1. name (columns scenario_A_board ! j) \<noteq> js ''Done''"
    by (simp_all add: scenario_A_board_def js_def)
  have b: "0 < length (columns empty_column_board)"
    "name (columns empty_column_board ! 0) = js ''Review''"
    "\<forall>j<0. name (columns empty_column_board ! j) \<noteq> js ''Review''"
    by (simp_all add: empty_column_board_def)
  note t1 = C6_column_remove [OF a, of "js ''Done''"]
  note t2 = C6_column_remove [OF a, of "js ''Review''"]
  note t3 = C6_column_remove [OF b, of "js ''Review''" "Some (js ''Review'')"]
  from t1 have "remove_in_board scenario_A_board (js ''Done'') (Some (js ''Done'')) = Inl SameColumn"
    by (simp add: scenario_A_board_def js_def)
  moreover from t2 have "remove_in_board scenario_A_board (js ''Done'') (Some (js ''Review''))
       = Inl (TargetColumnNotFound (js ''Review''))"
    by (simp add: scenario_A_board_def js_def)
  moreover from t3 have "remove_in_board empty_column_board (js ''Review'') (Some (js ''Review''))
       = Inr (empty_column_board\<lparr>columns := [\<lparr>name = js ''Done'', items = [mk_item ''Done task'' True]\<rparr>]\<rparr>, 0)"
    by (simp add: empty_column_board_def remove_at_def)
  ultimately show ?thesis by blast
qed

text \<open>
  C6 as stated fails: removing the empty column \<open>Review\<close> succeeds both with itself as
  target and with a target that names no column.
\<close>

theorem C6_column_remove_counterexample:
  "remove_in_board empty_column_board (js ''Review'') (Some (js ''Review''))
     = Inr (empty_column_board
              \<lparr>columns := [\<lparr>name = js ''Done'', items = [mk_item ''Done task'' True]\<rparr>]\<rparr>, 0)
   \<and> remove_in_board empty_column_board (js ''Review'') (Some (js ''Nowhere''))
     = Inr (empty_column_board
              \<lparr>columns := [\<lparr>name = js ''Done'', items = [mk_item ''Done task'' True]\<rparr>]\<rparr>, 0)"
  by (simp add: remove_in_board_def empty_column_board_def has_name_def js_def remove_at_def)


section \<open>Scenario A and archiving\<close>

lemma parse_scenario_A: "parseKanban scenario_A_document = scenario_A_board"
  by (simp add: scenario_A_document_def scenario_A_board_def mk_item_def string_eval parse_eval)

text \<open>
  C7 (amended). Parsing the document of Scenario A yields the columns \<open>Backlog\<close> with the
  unchecked items \<open>Task 1\<close>, \<open>Task 2\<close> and \<open>Done\<close> with the checked item \<open>Done task\<close>.
  Archiving with the default name then yields three columns in this order: \<open>Backlog\<close>,
  still holding its two unchecked items, \<open>Done\<close>, now empty, and \<open>Archive\<close> holding
  \<open>Done task\<close>, completed.
\<close>

theorem C7_scenario_archive:
  "columns (parseKanban scenario_A_document) =
     [\<lparr>name = js ''Backlog'', items = [mk_item ''Task 1'' False, mk_item ''Task 2'' False]\<rparr>,
      \<lparr>name = js ''Done'', items = [mk_item ''Done task'' True]\<rparr>]
   \<and> columns (archive_in_board (parseKanban scenario_A_document) (archive_name None)) =
     [\<lparr>name = js ''Backlog'', items = [mk_item ''Task 1'' False, mk_item ''Task 2'' False]\<rparr>,
      \<lparr>name = js ''Done'', items = []\<rparr>,
      \<lparr>name = js ''Archive'', items = [mk_item ''Done task'' True]\<rparr>]"
  by (simp add: parse_scenario_A archive_in_board_def archive_name_def scenario_A_board_def
      mk_item_def has_name_def js_def)

text \<open>C7 as stated fails: after archiving, \<open>Backlog\<close> is not empty.\<close>

theorem C7_scenario_archive_counterexample:
  "items (columns (archive_in_board (parseKanban scenario_A_document) (archive_name None)) ! 0)
     \<noteq> []"
  by (simp add: parse_scenario_A archive_in_board_def archive_name_def scenario_A_board_def
      mk_item_def has_name_def js_def)


section \<open>Path containment\<close>

lemmas path_eval = validateVaultPath_def js_includes_def isAbsolute_def resolve_def
  normalize_path_def normalizeString_def relative_def path_segments_def escapes_def sep_def
  MAX_PATH_LENGTH_def

text \<open>
  C2. On a POSIX host whose directory \<open>/vault\<close> exists, the absolute path \<open>/etc/passwd\<close> is
  rejected as an escape, but the drive-letter path is not: it is no absolute path
  there, so it is resolved below the vault root and returned.
\<close>

theorem C2_path_escape:
  "validateVaultPath vault_env (js ''/vault'') (js ''/etc/passwd'') = Inl EscapesVault
   \<and> validateVaultPath vault_env (js ''/vault'') windows_path
       = Inr (js ''/vault/'' @ windows_path)"
  by (simp add: vault_env_def windows_path_def path_eval js_def)

text \<open>
  C3 (amended). The vault root is canonicalised before the containment test. For the root
  \<open>/vault\<close>, written with or without a trailing separator, whose canonical path is
  \<open>/vault\<close> itself, the target \<open>../../etc/passwd\<close> is rejected as an escape; when the
  root does not resolve at all, the call fails because the root is not accessible. Nothing
  else of the environment matters, in particular not whether the target exists.
\<close>

theorem C3_traversal_rejected:
  assumes "v = js ''/vault'' \<or> v = js ''/vault/''"
    and "nfc e v = v"
    and "nfc e (js ''../../etc/passwd'') = js ''../../etc/passwd''"
  shows "(realpath e v = None \<longrightarrow>
            validateVaultPath e v (js ''../../etc/passwd'') = Inl VaultNotAccessible)
     \<and> (realpath e v = Some (js ''/vault'') \<longrightarrow>
            validateVaultPath e v (js ''../../etc/passwd'') = Inl EscapesVault)"
  using assms by (auto simp add: path_eval js_def)

text \<open>The theorem for both spellings of the root, for a host on which every path exists,
  and for a host without the vault directory.\<close>

theorem C3_traversal_rejected_witness:
  "validateVaultPath vault_env (js ''/vault'') (js ''../../etc/passwd'') = Inl EscapesVault
   \<and> validateVaultPath vault_env (js ''/vault/'') (js ''../../etc/passwd'') = Inl EscapesVault
   \<and> validateVaultPath (vault_env\<lparr>access := (\<lambda>p. True), realpath := (\<lambda>p. Some (js ''/vault''))\<rparr>)
        (js ''/vault/'') (js ''../../etc/passwd'') = Inl EscapesVault
   \<and> validateVaultPath (vault_env\<lparr>realpath := (\<lambda>p. None)\<rparr>)
        (js ''/vault'') (js ''../../etc/passwd'') = Inl VaultNotAccessible"
  using C3_traversal_rejected [of "js ''/vault''" vault_env]
    C3_traversal_rejected [of "js ''/vault/''" vault_env]
    C3_traversal_rejected [of "js ''/vault/''"
      "vault_env\<lparr>access := (\<lambda>p. True), realpath := (\<lambda>p. Some (js ''/vault''))\<rparr>"]
    C3_traversal_rejected [of "js ''/vault''" "vault_env\<lparr>realpath := (\<lambda>p. None)\<rparr>"]
  by (simp add: vault_env_def)

text \<open>
  C3 as stated fails: when \<open>/vault\<close> is a symbolic link to \<open>/etc\<close>, the canonical root is
  \<open>/etc\<close>, the target resolves to \<open>/etc/passwd\<close> inside it, and the call returns that path
  for either spelling of the root.
\<close>

theorem C3_traversal_rejected_counterexample:
  "validateVaultPath symlink_env (js ''/vault'') (js ''../../etc/passwd'')
     = Inr (js ''/etc/passwd'')
   \<and> validateVaultPath symlink_env (js ''/vault/'') (js ''../../etc/passwd'')
     = Inr (js ''/etc/passwd'')"
  by (simp add: symlink_env_def path_eval js_def)


section \<open>Merging boards\<close>

lemma diff_insert_member: "x \<in> T \<Longrightarrow> A = R - T \<Longrightarrow> A = insert x R - T"
  by auto

lemma insert_diff_insert: "x \<notin> T \<Longrightarrow> A = R - insert x T \<Longrightarrow> insert x A = insert x R - T"
  by auto

lemma merge_items_spec:
  "\<exists>added. merge_items target source = target @ added
     \<and> subseq added source
     \<and> distinct (map item_text added)
     \<and> set (map item_text added) = set (map item_text source) - set (map item_text target)
     \<and> (\<forall>a \<in> set added. find (has_text (item_text a)) source = Some a)"
proof (induction source arbitrary: target)
  case Nil
  then show ?case by simp
next
  case (Cons i rest)
  show ?case
  proof (cases "item_text i \<in> set (map item_text target)")
    case True
    from Cons.IH [of target] obtain added where a:
      "merge_items target rest = target @ added" "subseq added rest"
      "distinct (map item_text added)"
      "set (map item_text added) = set (map item_text rest) - set (map item_text target)"
      "\<forall>a \<in> set added. find (has_text (item_text a)) rest = Some a"
      by blast
    have ne: "\<forall>a \<in> set added. item_text i \<noteq> item_text a"
    proof
      fix a assume "a \<in> set added"
      then have "item_text a \<in> set (map item_text added)" by simp
      with a(4) have "item_text a \<notin> set (map item_text target)" by blast
      with True show "item_text i \<noteq> item_text a" by metis
    qed
    have dup: "\<exists>t \<in> set target. item_text t = item_text i"
      using True by (auto simp add: image_iff)
    have "merge_items target (i # rest) = target @ added"
      using dup a(1) by simp
    moreover have "subseq added (i # rest)"
      using a(2) by (rule list_emb_Cons)
    moreover have "set (map item_text added)
        = set (map item_text (i # rest)) - set (map item_text target)"
      using diff_insert_member [OF True a(4)] by simp
    moreover have "\<forall>a \<in> set added. find (has_text (item_text a)) (i # rest) = Some a"
      using a(5) ne by (simp add: has_text_def)
    ultimately show ?thesis using a(3) by blast
  next
    case False
    from Cons.IH [of "target @ [i]"] obtain added where a:
      "merge_items (target @ [i]) rest = (target @ [i]) @ added" "subseq added rest"
      "distinct (map item_text added)"
      "set (map item_text added) = set (map item_text rest) - set (map item_text (target @ [i]))"
      "\<forall>a \<in> set added. find (has_text (item_text a)) rest = Some a"
      by blast
    have tg: "set (map item_text (target @ [i]))
        = insert (item_text i) (set (map item_text target))"
      by simp
    have ni: "item_text i \<notin> set (map item_text added)"
      unfolding a(4) tg by simp
    have ne: "\<forall>a \<in> set added. item_text i \<noteq> item_text a"
    proof
      fix a assume "a \<in> set added"
      then have "item_text a \<in> set (map item_text added)" by simp
      with ni show "item_text i \<noteq> item_text a" by metis
    qed
    have nodup: "\<not> (\<exists>t \<in> set target. item_text t = item_text i)"
      using False by (auto simp add: image_iff)
    have "merge_items target (i # rest) = target @ (i # added)"
      using nodup a(1) by simp
    moreover have "subseq (i # added) (i # rest)"
      using a(2) by simp
    moreover have "distinct (map item_text (i # added))"
      using a(3) ni by simp
    moreover have "set (map item_text (i # added))
        = set (map item_text (i # rest)) - set (map item_text target)"
      using insert_diff_insert [OF False a(4) [unfolded tg]] by simp
    moreover have "\<forall>a \<in> set (i # added). find (has_text (item_text a)) (i # rest) = Some a"
      using a(5) ne by (simp add: has_text_def)
    ultimately show ?thesis by blast
  qed
qed

lemma merge_columns_foldl: "merge_columns cols scs = foldl merge_column cols scs"
  by (induction scs arbitrary: cols) simp_all

text \<open>
  C8. Merging the items of a source column into a target column keeps the target items
  and appends, in source order, exactly the source items whose text occurs neither in
  the target column nor earlier in the source column: the appended items have pairwise
  different texts, none of them a text of the target, and each is the first source item
  with its text. The target column is the first column with the source column's name; if
  there is none, a column of that name is appended to the board. The source columns are
  merged one after the other. Hence two boards that each hold a column \<open>n\<close> with one item
  of the same text, merged into a new board, give one column \<open>n\<close> with one item.
\<close>

theorem C8_merge_dedup:
  "(\<exists>added. merge_items target source = target @ added
       \<and> subseq added source
       \<and> distinct (map item_text added)
       \<and> set (map item_text added) = set (map item_text source) - set (map item_text target)
       \<and> (\<forall>a \<in> set added. find (has_text (item_text a)) source = Some a))
   \<and> ((\<forall>c \<in> set cols. name c \<noteq> name sc) \<longrightarrow>
         merge_column cols sc = cols @ [\<lparr>name = name sc, items = merge_items [] (items sc)\<rparr>])
   \<and> (\<forall>k. k < length cols \<and> name (cols ! k) = name sc \<and> (\<forall>j<k. name (cols ! j) \<noteq> name sc) \<longrightarrow>
         merge_column cols sc
           = cols[k := (cols ! k)\<lparr>items := merge_items (items (cols ! k)) (items sc)\<rparr>])
   \<and> columns (merge_board tb sb) = foldl merge_column (columns tb) (columns sb)
   \<and> (item_text i1 = item_text i2 \<longrightarrow>
         columns (merge_board
                    (merge_board (new_board p)
                       \<lparr>path = p1, settings = s1, columns = [\<lparr>name = n, items = [i1]\<rparr>]\<rparr>)
                    \<lparr>path = p2, settings = s2, columns = [\<lparr>name = n, items = [i2]\<rparr>]\<rparr>)
           = [\<lparr>name = n, items = [i1]\<rparr>])"
proof (intro conjI allI impI)
  show "\<exists>added. merge_items target source = target @ added
       \<and> subseq added source
       \<and> distinct (map item_text added)
       \<and> set (map item_text added) = set (map item_text source) - set (map item_text target)
       \<and> (\<forall>a \<in> set added. find (has_text (item_text a)) source = Some a)"
    by (rule merge_items_spec)
next
  assume "\<forall>c \<in> set cols. name c \<noteq> name sc"
  then have "findIndex (has_name (name sc)) cols = None"
    by (simp add: findIndex_None_iff has_name_def)
  then show "merge_column cols sc
      = cols @ [\<lparr>name = name sc, items = merge_items [] (items sc)\<rparr>]"
    by (simp add: merge_column_def)
next
  fix k
  assume "k < length cols \<and> name (cols ! k) = name sc \<and> (\<forall>j<k. name (cols ! j) \<noteq> name sc)"
  then have "findIndex (has_name (name sc)) cols = Some k"
    by (simp add: findIndex_Some_iff has_name_def)
  then show "merge_column cols sc
      = cols[k := (cols ! k)\<lparr>items := merge_items (items (cols ! k)) (items sc)\<rparr>]"
    by (simp add: merge_column_def)
next
  show "columns (merge_board tb sb) = foldl merge_column (columns tb) (columns sb)"
    by (simp add: merge_board_def merge_columns_foldl)
next
  assume "item_text i1 = item_text i2"
  then show "columns (merge_board
                    (merge_board (new_board p)
                       \<lparr>path = p1, settings = s1, columns = [\<lparr>name = n, items = [i1]\<rparr>]\<rparr>)
                    \<lparr>path = p2, settings = s2, columns = [\<lparr>name = n, items = [i2]\<rparr>]\<rparr>)
           = [\<lparr>name = n, items = [i1]\<rparr>]"
    by (simp add: merge_board_def new_board_def merge_column_def has_name_def)
qed

text \<open>The theorem on two boards with a column \<open>To Do\<close> holding \<open>Shared task\<close>, and on a
  source column that repeats one text of the target and brings a new one.\<close>

theorem C8_merge_dedup_witness:
  "columns (merge_board
     (merge_board (new_board (js ''/vault/merged.md''))
        \<lparr>path = js ''/vault/a.md'', settings = [(kanban_plugin, js ''basic'')],
         columns = [\<lparr>name = js ''To Do'', items = [mk_item ''Shared task'' False]\<rparr>]\<rparr>)
     \<lparr>path = js ''/vault/b.md'', settings = [(kanban_plugin, js ''basic'')],
      columns = [\<lparr>name = js ''To Do'', items = [mk_item ''Shared task'' True]\<rparr>]\<rparr>)
   = [\<lparr>name = js ''To Do'', items = [mk_item ''Shared task'' False]\<rparr>]
   \<and> merge_column [] \<lparr>name = js ''To Do'', items = [mk_item ''Shared task'' False]\<rparr>
       = [\<lparr>name = js ''To Do'', items = [mk_item ''Shared task'' False]\<rparr>]
   \<and> merge_column [\<lparr>name = js ''To Do'', items = [mk_item ''Shared task'' False]\<rparr>]
         \<lparr>name = js ''To Do'', items = [mk_item ''Shared task'' True, mk_item ''Other'' False]\<rparr>
       = [\<lparr>name = js ''To Do'', items = [mk_item ''Shared task'' False, mk_item ''Other'' False]\<rparr>]"
proof -
  note t = C8_merge_dedup [of _ _ "[]"
      "\<lparr>name = js ''To Do'', items = [mk_item ''Shared task'' False]\<rparr>" _ _
      "mk_item ''Shared task'' False" "mk_item ''Shared task'' True"
      "js ''/vault/merged.md''" "js ''/vault/a.md''" "[(kanban_plugin, js ''basic'')]"
      "js ''To Do''" "js ''/vault/b.md''" "[(kanban_plugin, js ''basic'')]"]
  note u = C8_merge_dedup [of _ _ "[\<lparr>name = js ''To Do'', items = [mk_item ''Shared task'' False]\<rparr>]"
      "\<lparr>name = js ''To Do'', items = [mk_item ''Shared task'' True, mk_item ''Other'' False]\<rparr>"]
  have 1: "columns (merge_board
     (merge_board (new_board (js ''/vault/merged.md''))
        \<lparr>path = js ''/vault/a.md'', settings = [(kanban_plugin, js ''basic'')],
         columns = [\<lparr>name = js ''To Do'', items = [mk_item ''Shared task'' False]\<rparr>]\<rparr>)
     \<lparr>path = js ''/vault/b.md'', settings = [(kanban_plugin, js ''basic'')],
      columns = [\<lparr>name = js ''To Do'', items = [mk_item ''Shared task'' True]\<rparr>]\<rparr>)
   = [\<lparr>name = js ''To Do'', items = [mk_item ''Shared task'' False]\<rparr>]"
    using t [THEN conjunct2, THEN conjunct2, THEN conjunct2, THEN conjunct2]
    by (simp add: mk_item_def)
  have 2: "merge_column [] \<lparr>name = js ''To Do'', items = [mk_item ''Shared task'' False]\<rparr>
       = [\<lparr>name = js ''To Do'', items = [mk_item ''Shared task'' False]\<rparr>]"
    using t [THEN conjunct2, THEN conjunct1] by simp
  from u [THEN conjunct2, THEN conjunct2, THEN conjunct1, THEN spec, of 0]
  have 3: "merge_column [\<lparr>name = js ''To Do'', items = [mk_item ''Shared task'' False]\<rparr>]
         \<lparr>name = js ''To Do'', items = [mk_item ''Shared task'' True, mk_item ''Other'' False]\<rparr>
       = [\<lparr>name = js ''To Do'', items = [mk_item ''Shared task'' False, mk_item ''Other'' False]\<rparr>]"
    by (simp add: mk_item_def js_def)
  from 1 2 3 show ?thesis by blast
qed


section \<open>Merging into a board that cannot be read\<close>

lemma merge_sources_readable:
  "list_all2 (\<lambda>s b. \<exists>sp. validateVaultPath e vault s = Inr sp \<and> readKanbanFile e sp = Inr b)
     sources bs
   \<Longrightarrow> merge_sources e vault sources target = Inr (foldl merge_board target bs)"
proof (induction sources bs arbitrary: target rule: list_all2_induct)
  case Nil
  then show ?case by simp
next
  case (Cons s sources b bs)
  then obtain sp where "validateVaultPath e vault s = Inr sp" "readKanbanFile e sp = Inr b"
    by blast
  with Cons.IH [of "merge_board target b"] show ?case
    by (simp add: secure_path_def)
qed

lemma foldl_merge_board_path: "path (foldl merge_board target bs) = path target"
  by (induction bs arbitrary: target) (simp_all add: merge_board_def)

lemma foldl_merge_board_settings: "settings (foldl merge_board target bs) = settings target"
  by (induction bs arbitrary: target) (simp_all add: merge_board_def)

text \<open>
  C10. Let the parameters pass the schema, let the target path validate to \<open>tp\<close>, and let
  no file be readable at \<open>tp\<close>. If every source path validates and its board can be read,
  and \<open>tp\<close> can be written, then \<open>kanbanMerge\<close> does not fail: it starts from a board
  with the settings \<open>kanban-plugin: basic\<close> and no columns, merges the source boards into
  it in order, writes the serialized result to \<open>tp\<close> and returns it.
\<close>

theorem C10_merge_creates_target:
  assumes params: "vault \<noteq> []" "targetBoard \<noteq> []" "sourceBoards \<noteq> []"
      "\<forall>s \<in> set sourceBoards. s \<noteq> []"
    and target: "validateVaultPath e vault targetBoard = Inr tp"
    and missing: "files e tp = None"
    and sources: "list_all2 (\<lambda>s b. \<exists>sp. validateVaultPath e vault s = Inr sp
                                 \<and> readKanbanFile e sp = Inr b) sourceBoards bs"
    and writable: "can_write e tp"
  shows "let merged = foldl merge_board
                        \<lparr>path = tp, settings = [(js ''kanban-plugin'', js ''basic'')],
                         columns = []\<rparr> bs
         in kanbanMerge e vault sourceBoards targetBoard
              = (Inr merged,
                 e\<lparr>files := ((files e)(tp @ js ''.tmp'' := None))(tp \<mapsto> serializeKanban merged)\<rparr>)
            \<and> path merged = tp
            \<and> settings merged = [(js ''kanban-plugin'', js ''basic'')]"
proof -
  have nb: "new_board tp = \<lparr>path = tp, settings = [(js ''kanban-plugin'', js ''basic'')],
                         columns = []\<rparr>"
    by (simp add: new_board_def kanban_plugin_def)
  have schema: "KanbanMergeSchema vault sourceBoards targetBoard = Inr ()"
    using params by (simp add: KanbanMergeSchema_def)
  have rd: "readKanbanFile e tp = Inl (ReadFailed tp)"
    using missing by (simp add: readKanbanFile_def)
  have ms: "merge_sources e vault sourceBoards (new_board tp)
              = Inr (foldl merge_board (new_board tp) bs)"
    using sources by (rule merge_sources_readable)
  have "kanbanMerge e vault sourceBoards targetBoard
      = (Inr (foldl merge_board (new_board tp) bs),
         e\<lparr>files := ((files e)(tp @ js ''.tmp'' := None))
                      (tp \<mapsto> serializeKanban (foldl merge_board (new_board tp) bs))\<rparr>)"
    using schema target rd ms writable
    by (simp add: kanbanMerge_def bind_err_def secure_path_def commit_def writeKanbanFile_def
        Let_def)
  then show ?thesis
    unfolding Let_def nb [symmetric]
    by (simp add: foldl_merge_board_path foldl_merge_board_settings)
       (simp add: new_board_def kanban_plugin_def)
qed

text \<open>The theorem on a vault that holds the board \<open>a.md\<close> of Scenario A and no
  \<open>merged.md\<close>: the merge creates \<open>merged.md\<close> with the columns of \<open>a.md\<close>.\<close>

theorem C10_merge_creates_target_witness:
  "fst (kanbanMerge merge_env (js ''/vault'') [js ''a.md''] (js ''merged.md''))
     = Inr (scenario_A_board\<lparr>path := js ''/vault/merged.md''\<rparr>)
   \<and> files (snd (kanbanMerge merge_env (js ''/vault'') [js ''a.md''] (js ''merged.md'')))
       (js ''/vault/merged.md'')
     = Some (serializeKanban (scenario_A_board\<lparr>path := js ''/vault/merged.md''\<rparr>))"
proof -
  have t: "validateVaultPath merge_env (js ''/vault'') (js ''merged.md'')
             = Inr (js ''/vault/merged.md'')"
    by (simp add: merge_env_def path_eval js_def)
  have s: "validateVaultPath merge_env (js ''/vault'') (js ''a.md'') = Inr (js ''/vault/a.md'')"
    by (simp add: merge_env_def path_eval js_def)
  have m: "files merge_env (js ''/vault/merged.md'') = None"
    by (simp add: merge_env_def js_def)
  have r: "readKanbanFile merge_env (js ''/vault/a.md'')
             = Inr (scenario_A_board\<lparr>path := js ''/vault/a.md''\<rparr>)"
    by (simp add: readKanbanFile_def merge_env_def parse_scenario_A)
  have l: "list_all2 (\<lambda>s b. \<exists>sp. validateVaultPath merge_env (js ''/vault'') s = Inr sp
                                 \<and> readKanbanFile merge_env sp = Inr b)
             [js ''a.md''] [scenario_A_board\<lparr>path := js ''/vault/a.md''\<rparr>]"
    using s r by simp
  have w: "can_write merge_env (js ''/vault/merged.md'')"
    by (simp add: merge_env_def)
  have p: "js ''/vault'' \<noteq> []" "js ''merged.md'' \<noteq> []" "[js ''a.md''] \<noteq> []"
    "\<forall>s \<in> set [js ''a.md'']. s \<noteq> []"
    by (simp_all add: js_def)
  have f: "foldl merge_board
             \<lparr>path = js ''/vault/merged.md'', settings = [(js ''kanban-plugin'', js ''basic'')],
              columns = []\<rparr> [scenario_A_board\<lparr>path := js ''/vault/a.md''\<rparr>]
           = scenario_A_board\<lparr>path := js ''/vault/merged.md''\<rparr>"
    by (simp add: merge_board_def merge_column_def has_name_def scenario_A_board_def
        mk_item_def kanban_plugin_def js_def)
  from C10_merge_creates_target [OF p t m l w] show ?thesis
    unfolding Let_def f by simp
qed


section \<open>Columns and header lines\<close>

lemma trim_Cons_nonspace: "\<not> is_ws c \<Longrightarrow> \<exists>ys. trim (c # cs) = c # ys"
proof -
  assume c: "\<not> is_ws c"
  have "dropWhile is_ws (rev cs @ [c]) = dropWhile is_ws (rev cs) @ [c]
      \<or> dropWhile is_ws (rev cs @ [c]) = [c]"
    using c by (simp add: dropWhile_append)
  then have "trim (c # cs) = c # rev (dropWhile is_ws (rev cs)) \<or> trim (c # cs) = [c]"
    using c by (auto simp: trim_def)
  then show ?thesis by blast
qed

lemma startsWith_Cons_neq: "c \<noteq> p \<Longrightarrow> \<not> startsWith (c # cs) (p # ps)"
  by simp

lemma header_not_sentinel:
  assumes "headerMatch l = Some cap"
  shows "\<not> startsWith (trim l) (js ''%%'')"
proof -
  from assms have "startsWith l (js ''##'')"
    by (simp add: headerMatch_def split: if_splits)
  then obtain cs where l: "l = 0x23 # cs"
    by (cases l) (auto simp: js_def)
  have "\<not> is_ws (0x23 :: jschar)" by (simp add: is_ws_def)
  from trim_Cons_nonspace [OF this, of cs] obtain ys where "trim l = 0x23 # ys"
    using l by blast
  then show ?thesis by (simp add: js_def)
qed

lemma item_not_sentinel:
  assumes "itemMatch l = Some x"
  shows "\<not> startsWith (trim l) (js ''%%'')"
proof -
  from assms obtain cs where l: "l = 0x2D # cs"
    by (cases l) (auto simp: itemMatch_def split: if_splits)
  have "\<not> is_ws (0x2D :: jschar)" by (simp add: is_ws_def)
  from trim_Cons_nonspace [OF this, of cs] obtain ys where "trim l = 0x2D # ys"
    using l by blast
  then show ?thesis by (simp add: js_def)
qed

lemma parse_lines_names:
  "parse_lines ls cols cur = (cols', cur') \<Longrightarrow>
   map name (push_current cols' cur')
     = map name (push_current cols cur)
       @ List.map_filter (\<lambda>l. map_option trim (headerMatch l))
           (takeWhile (\<lambda>l. \<not> startsWith (trim l) (js ''%%'')) ls)"
proof (induction ls arbitrary: cols cur)
  case Nil
  then show ?case by (simp add: List.map_filter_simps)
next
  case (Cons l ls)
  show ?case
  proof (cases "headerMatch l")
    case (Some cap)
    with Cons.prems have
      "parse_lines ls (push_current cols cur) (Some \<lparr>name = trim cap, items = []\<rparr>)
         = (cols', cur')"
      by simp
    from Cons.IH [OF this] header_not_sentinel [OF Some] Some show ?thesis
      by (simp add: List.map_filter_simps push_current_def)
  next
    case None
    show ?thesis
    proof (cases "itemMatch l")
      case inone: None
      show ?thesis
      proof (cases "startsWith (trim l) (js ''%%'')")
        case True
        with None inone Cons.prems show ?thesis
          by (simp add: List.map_filter_simps)
      next
        case False
        with None inone Cons.prems have "parse_lines ls cols cur = (cols', cur')"
          by simp
        from Cons.IH [OF this] None False show ?thesis
          by (simp add: List.map_filter_simps)
      qed
    next
      case (Some x)
      obtain chk cap where x: "x = (chk, cap)" by (cases x)
      note ns = item_not_sentinel [OF Some]
      show ?thesis
      proof (cases cur)
        case cnone: None
        with None Some x ns Cons.prems have "parse_lines ls cols cur = (cols', cur')"
          by simp
        from Cons.IH [OF this] None ns show ?thesis
          by (simp add: List.map_filter_simps)
      next
        case (Some c)
        with None \<open>itemMatch l = Some x\<close> x Cons.prems have
          "parse_lines ls cols
             (Some (c\<lparr>items := items c @
                [\<lparr>item_text = trim cap, completed = (chk = 0x78), metadata = None\<rparr>]\<rparr>))
           = (cols', cur')"
          by simp
        from Cons.IH [OF this] None ns Some show ?thesis
          by (simp add: List.map_filter_simps push_current_def)
      qed
    qed
  qed
qed

lemma parse_duplicate_headers: "columns (parseKanban duplicate_header_document)
     = [\<lparr>name = js ''X'', items = [mk_item ''a'' False]\<rparr>,
        \<lparr>name = js ''X'', items = [mk_item ''b'' True]\<rparr>]"
  by (simp add: duplicate_header_document_def mk_item_def string_eval parse_eval)

text \<open>
  C9 (amended). The body of a document is what follows the frontmatter block. The column
  names of the parsed board are, in order, the trimmed captures of the body lines that
  match the header pattern and stand before the first line whose trimmed form starts
  with \<open>%%\<close>: one column per such line, nothing merged, renamed or rejected. For the
  document with the header \<open>## X\<close> twice the board has two columns named \<open>X\<close>, so parsing
  does not make column names unique.
\<close>

theorem C9_columns_follow_headers:
  "map name (columns (parseKanban content))
     = List.map_filter (\<lambda>l. map_option trim (headerMatch l))
         (takeWhile (\<lambda>l. \<not> startsWith (trim l) (js ''%%''))
            (split_on 10 (snd (matter content))))
   \<and> columns (parseKanban duplicate_header_document)
     = [\<lparr>name = js ''X'', items = [mk_item ''a'' False]\<rparr>,
        \<lparr>name = js ''X'', items = [mk_item ''b'' True]\<rparr>]"
proof -
  obtain fm body where m: "matter content = (fm, body)"
    by (cases "matter content")
  obtain cols cur where p: "parse_lines (split_on 10 body) [] None = (cols, cur)"
    by (cases "parse_lines (split_on 10 body) [] None")
  have "columns (parseKanban content) = push_current cols cur"
    by (simp add: parseKanban_def m p)
  with parse_lines_names [OF p] m parse_duplicate_headers show ?thesis
    by (simp add: push_current_def)
qed

text \<open>The equation at the document with the repeated header.\<close>

theorem C9_columns_follow_headers_witness:
  "map name (columns (parseKanban duplicate_header_document)) = [js ''X'', js ''X'']"
  using C9_columns_follow_headers [of duplicate_header_document, THEN conjunct1]
  by (simp add: duplicate_header_document_def matter_def strip_line_break_def
      headerMatch_def List.map_filter_simps string_eval)

text \<open>
  C9 as stated fails: in this document the line \<open>## X\<close> matches the header pattern, but
  it follows a line starting with \<open>%%\<close>, and the board has no column.
\<close>

theorem C9_columns_follow_headers_counterexample:
  "js ''## X'' \<in> set (split_on 10 sentinel_document)
   \<and> headerMatch (js ''## X'') = Some (js ''X'')
   \<and> columns (parseKanban sentinel_document) = []"
  by (simp add: sentinel_document_def string_eval parse_eval)


section \<open>Serializing and parsing again\<close>

lemma split_on_no_sep: "d \<notin> set l \<Longrightarrow> split_on d l = [l]"
  by (induction l) auto

lemma split_on_append_sep: "d \<notin> set l \<Longrightarrow> split_on d (l @ d # r) = l # split_on d r"
  by (induction l) auto

lemma join_Cons: "ys \<noteq> [] \<Longrightarrow> join s (x # ys) = x @ s @ join s ys"
  by (cases ys) simp_all

lemma split_on_join:
  "ls \<noteq> [] \<Longrightarrow> \<forall>l \<in> set ls. d \<notin> set l \<Longrightarrow> split_on d (join [d] ls) = ls"
proof (induction ls)
  case Nil
  then show ?case by simp
next
  case (Cons l ls)
  show ?case
  proof (cases ls)
    case Nil
    with Cons.prems show ?thesis by (simp add: split_on_no_sep)
  next
    case (Cons m ms)
    with Cons.prems Cons.IH have "split_on d (join [d] ls) = ls" by simp
    with Cons.prems Cons show ?thesis
      by (simp add: split_on_append_sep)
  qed
qed

lemma trim_fixed_hd: "s \<noteq> [] \<Longrightarrow> trim s = s \<Longrightarrow> \<not> is_ws (hd s)"
proof
  assume s: "s \<noteq> []" and t: "trim s = s" and w: "is_ws (hd s)"
  from s w have "length (dropWhile is_ws s) < length s"
    by (cases s) (simp_all add: le_imp_less_Suc length_dropWhile_le)
  moreover have "length (dropWhile is_ws (rev (dropWhile is_ws s)))
      \<le> length (rev (dropWhile is_ws s))"
    by (rule length_dropWhile_le)
  then have "length (trim s) \<le> length (dropWhile is_ws s)"
    by (simp add: trim_def)
  ultimately show False using t by simp
qed

lemma is_ws_space: "is_ws 32"
  by (simp add: is_ws_def)

lemma not_is_ws_marks: "\<not> is_ws 0x5B" "\<not> is_ws 0x5D" "\<not> is_ws 0x78"
  by (simp_all add: is_ws_def)

lemma takeWhile_space_text:
  "s \<noteq> [] \<Longrightarrow> trim s = s \<Longrightarrow> takeWhile is_ws (32 # s) = [32] \<and> dropWhile is_ws (32 # s) = s"
  using trim_fixed_hd [of s] by (cases s) (simp_all add: is_ws_space)

lemma headerMatch_header:
  assumes "n \<noteq> []" "trim n = n" "\<forall>c \<in> set n. \<not> is_lt c"
  shows "headerMatch (js ''## '' @ n) = Some n"
proof -
  have "js ''## '' @ n = 0x23 # 0x23 # 32 # n" by (simp add: js_def)
  with takeWhile_space_text [OF assms(1,2)] assms show ?thesis
    by (simp add: headerMatch_def js_def)
qed

lemma itemMatch_item:
  assumes "t \<noteq> []" "trim t = t" "\<forall>c \<in> set t. \<not> is_lt c"
  shows "itemMatch (item_line \<lparr>item_text = t, completed = c, metadata = m\<rparr>)
           = Some (if c then 0x78 else 0x20, t)"
proof -
  have "item_line \<lparr>item_text = t, completed = c, metadata = m\<rparr>
      = 0x2D # 32 # 0x5B # (if c then 0x78 else 0x20) # 0x5D # 32 # t"
    by (simp add: item_line_def js_def)
  with takeWhile_space_text [OF assms(1,2)] assms show ?thesis
    by (simp add: itemMatch_def is_ws_space not_is_ws_marks)
qed

lemma headerMatch_item: "headerMatch (item_line i) = None"
  by (simp add: headerMatch_def item_line_def js_def)

lemma item_line_cases: "\<exists>t c m. i = \<lparr>item_text = t, completed = c, metadata = m\<rparr>"
  by (cases i) simp

lemma parse_item_lines:
  "\<forall>i \<in> set is. line_text (item_text i) \<Longrightarrow>
   parse_lines (map item_line is @ rest) cols (Some c)
     = parse_lines rest cols (Some (c\<lparr>items := items c @ map parsed_item is\<rparr>))"
proof (induction "is" arbitrary: c)
  case Nil
  then show ?case by simp
next
  case (Cons i "is")
  obtain t d m where i: "i = \<lparr>item_text = t, completed = d, metadata = m\<rparr>"
    using item_line_cases by blast
  from Cons.prems i have t: "t \<noteq> []" "trim t = t" "\<forall>c \<in> set t. \<not> is_lt c"
    by (simp_all add: line_text_def)
  have im: "itemMatch (item_line i) = Some (if d then 0x78 else 0x20, t)"
    unfolding i by (rule itemMatch_item [OF t])
  have "parse_lines (map item_line (i # is) @ rest) cols (Some c)
      = parse_lines (map item_line is @ rest) cols
          (Some (c\<lparr>items := items c @ [parsed_item i]\<rparr>))"
    using im t(2) by (simp add: headerMatch_item parsed_item_def i)
  also have "\<dots> = parse_lines rest cols
      (Some (c\<lparr>items := items c @ map parsed_item (i # is)\<rparr>))"
    using Cons.IH [of "c\<lparr>items := items c @ [parsed_item i]\<rparr>"] Cons.prems by simp
  finally show ?case .
qed

lemma parse_empty_line: "parse_lines ([] # rest) cols cur = parse_lines rest cols cur"
  by (simp add: headerMatch_def itemMatch_def trim_def js_def)

lemma parse_column_parts:
  assumes "line_text (name c)" "\<forall>i \<in> set (items c). line_text (item_text i)"
  shows "parse_lines (column_parts c @ rest) cols cur
           = parse_lines rest (push_current cols cur) (Some (parsed_column c))"
proof -
  have h: "headerMatch (js ''## '' @ name c) = Some (name c)"
    using assms(1) by (simp add: line_text_def headerMatch_header)
  have "parse_lines (column_parts c @ rest) cols cur
      = parse_lines ([] # map item_line (items c) @ [] # rest) (push_current cols cur)
          (Some \<lparr>name = name c, items = []\<rparr>)"
    using h assms(1) by (simp add: column_parts_def line_text_def)
  also have "\<dots> = parse_lines (map item_line (items c) @ [] # rest) (push_current cols cur)
          (Some \<lparr>name = name c, items = []\<rparr>)"
    by (rule parse_empty_line)
  also have "\<dots> = parse_lines ([] # rest) (push_current cols cur)
          (Some \<lparr>name = name c, items = map parsed_item (items c)\<rparr>)"
    using parse_item_lines [OF assms(2)] by simp
  also have "\<dots> = parse_lines rest (push_current cols cur)
          (Some \<lparr>name = name c, items = map parsed_item (items c)\<rparr>)"
    by (rule parse_empty_line)
  finally show ?thesis by (cases c) (simp add: parsed_column_def)
qed

lemma parse_sentinel:
  "parse_lines (js ''%% kanban:settings'' # rest) cols cur = (cols, cur)"
  by (simp add: headerMatch_def itemMatch_def trim_def is_ws_def js_def)

lemma parse_columns_parts:
  "\<forall>c \<in> set cs. line_text (name c) \<and> (\<forall>i \<in> set (items c). line_text (item_text i)) \<Longrightarrow>
   \<exists>cols' cur'.
     parse_lines (concat (map column_parts cs) @ js ''%% kanban:settings'' # rest) cols cur
       = (cols', cur')
     \<and> push_current cols' cur' = push_current cols cur @ map parsed_column cs"
proof (induction cs arbitrary: cols cur)
  case Nil
  then show ?case by (simp add: parse_sentinel del: parse_lines.simps)
next
  case (Cons c cs)
  from Cons.prems have c: "line_text (name c)" "\<forall>i \<in> set (items c). line_text (item_text i)"
    by simp_all
  from Cons.prems Cons.IH [of "push_current cols cur" "Some (parsed_column c)"]
  obtain cols' cur' where
    "parse_lines (concat (map column_parts cs) @ js ''%% kanban:settings'' # rest)
       (push_current cols cur) (Some (parsed_column c)) = (cols', cur')"
    "push_current cols' cur'
       = push_current (push_current cols cur) (Some (parsed_column c)) @ map parsed_column cs"
    by auto
  with parse_column_parts [OF c] show ?case
    by (simp add: push_current_def)
qed

lemma matter_basic:
  "matter (js ''---'' @ [10] @ [] @ [10] @ (js ''kanban-plugin: '' @ js ''basic'') @ [10] @ []
                 @ [10] @ js ''---'' @ [10] @ [] @ [10] @ X)
           = ([(kanban_plugin, js ''basic'')], 10 # X)"
  by (simp add: matter_def js_def parse_yaml_def yaml_line_def trim_def is_ws_def
      strip_line_break_def kanban_plugin_def)

lemma matter_advanced:
  "matter (js ''---'' @ [10] @ [] @ [10] @ (js ''kanban-plugin: '' @ js ''advanced'') @ [10] @ []
                 @ [10] @ js ''---'' @ [10] @ [] @ [10] @ X)
           = ([(kanban_plugin, js ''advanced'')], 10 # X)"
  by (simp add: matter_def js_def parse_yaml_def yaml_line_def trim_def is_ws_def
      strip_line_break_def kanban_plugin_def)

lemma matter_serialized:
  assumes "v = js ''basic'' \<or> v = js ''advanced''"
  shows "matter (js ''---'' @ [10] @ [] @ [10] @ (js ''kanban-plugin: '' @ v) @ [10] @ []
                 @ [10] @ js ''---'' @ [10] @ [] @ [10] @ X)
           = ([(kanban_plugin, v)], 10 # X)"
  using assms matter_basic [of X] matter_advanced [of X] by blast

lemma json_no_newline:
  assumes "v = js ''basic'' \<or> v = js ''advanced''"
  shows "10 \<notin> set (JSON_stringify [(kanban_plugin, v)])"
proof -
  have "10 \<notin> set (JSON_stringify [(kanban_plugin, js ''basic'')])"
    by (simp add: JSON_stringify_def json_quote_def kanban_plugin_def js_def
        is_high_surrogate_def is_low_surrogate_def)
  moreover have "10 \<notin> set (JSON_stringify [(kanban_plugin, js ''advanced'')])"
    by (simp add: JSON_stringify_def json_quote_def kanban_plugin_def js_def
        is_high_surrogate_def is_low_surrogate_def)
  ultimately show ?thesis using assms by blast
qed

lemma serialize_shape:
  "serializeKanban b
     = js ''---'' @ [10] @ [] @ [10]
       @ (js ''kanban-plugin: '' @ template_value (obj_get (settings b) kanban_plugin))
       @ [10] @ [] @ [10] @ js ''---'' @ [10] @ [] @ [10]
       @ join [10] (concat (map column_parts (columns b))
           @ [js ''%% kanban:settings'', js ''```'', JSON_stringify (settings b), js ''```'',
              js ''%%'', []])"
  by (simp add: serializeKanban_def join_Cons)

lemma line_text_no_newline: "line_text s \<Longrightarrow> 10 \<notin> set s"
  by (auto simp: line_text_def is_lt_def)

lemma column_parts_no_newline:
  assumes "line_text (name c)" "\<forall>i \<in> set (items c). line_text (item_text i)"
  shows "\<forall>l \<in> set (column_parts c). 10 \<notin> set l"
  using assms
  by (auto simp: column_parts_def item_line_def js_def dest: line_text_no_newline)

lemma roundtrip_without_line_terminators:
  assumes s: "settings b = [(kanban_plugin, v)]"
    and v: "v = js ''basic'' \<or> v = js ''advanced''"
    and cols: "\<forall>c \<in> set (columns b). line_text (name c)
                 \<and> (\<forall>i \<in> set (items c). line_text (item_text i))"
  shows "parseKanban (serializeKanban b)
           = \<lparr>path = [], settings = settings b, columns = map parsed_column (columns b)\<rparr>"
proof -
  define trailer where "trailer = [js ''```'', JSON_stringify (settings b), js ''```'', js ''%%'', []]"
  define lines where "lines = concat (map column_parts (columns b))
      @ js ''%% kanban:settings'' # trailer"
  have tv: "template_value (obj_get (settings b) kanban_plugin) = v"
    by (simp add: s template_value_def obj_get_def)
  have ser: "serializeKanban b
      = js ''---'' @ [10] @ [] @ [10] @ (js ''kanban-plugin: '' @ v) @ [10] @ []
        @ [10] @ js ''---'' @ [10] @ [] @ [10] @ join [10] lines"
    unfolding serialize_shape tv lines_def trailer_def by simp
  have m: "matter (serializeKanban b) = ([(kanban_plugin, v)], 10 # join [10] lines)"
    unfolding ser by (rule matter_serialized [OF v])
  have json: "10 \<notin> set (JSON_stringify (settings b))"
    unfolding s by (rule json_no_newline [OF v])
  have tr: "\<forall>l \<in> set (js ''%% kanban:settings'' # trailer). 10 \<notin> set l"
    using json by (simp add: trailer_def js_def)
  have cp: "\<forall>l \<in> set (concat (map column_parts (columns b))). 10 \<notin> set l"
    using cols column_parts_no_newline by fastforce
  have nl: "\<forall>l \<in> set lines. 10 \<notin> set l"
    unfolding lines_def using tr cp by (metis Un_iff set_append)
  have "lines \<noteq> []" by (simp add: lines_def)
  with nl have sp: "split_on 10 (join [10] lines) = lines"
    by (simp add: split_on_join)
  from parse_columns_parts [OF cols, of trailer "[]" None]
  obtain cols' cur' where p: "parse_lines lines [] None = (cols', cur')"
    "push_current cols' cur' = map parsed_column (columns b)"
    by (auto simp: lines_def push_current_def)
  have pl: "parse_lines ([] # lines) [] None = (cols', cur')"
    using p(1) by (simp only: parse_empty_line)
  have st: "obj_spread [(kanban_plugin, v)] [(kanban_plugin, v)] = [(kanban_plugin, v)]"
    by (simp add: obj_spread_def)
  have vne: "v \<noteq> []" using v by (auto simp: js_def)
  show ?thesis
    using vne by (simp add: parseKanban_def m sp pl p(2) s st obj_get_def del: parse_lines.simps)
qed

lemma validateColumnName_fixed:
  "validateColumnName n = Inr n \<Longrightarrow> n \<noteq> [] \<and> trim n = n \<and> 10 \<notin> set n \<and> 13 \<notin> set n"
  by (auto simp: validateColumnName_def Let_def js_includes_def split: if_splits)

lemma validateItemText_fixed:
  "validateItemText t = Inr t \<Longrightarrow> t \<noteq> [] \<and> trim t = t \<and> 10 \<notin> set t \<and> 13 \<notin> set t"
  by (auto simp: validateItemText_def Let_def js_includes_def split: if_splits)

text \<open>
  The round trip of the specification holds once U+2028 and U+2029 are kept out of the
  names and texts: for a board whose settings are exactly the plugin key with the value
  \<open>basic\<close> or \<open>advanced\<close>, and whose column names and item texts are returned unchanged by
  their validators and hold neither separator, parsing the serialized board gives back
  the settings, the columns and the items with their texts and flags, in order.
\<close>

lemma roundtrip_validated:
  assumes "settings b = [(kanban_plugin, v)]"
    and "v = js ''basic'' \<or> v = js ''advanced''"
    and "\<forall>c \<in> set (columns b).
           validateColumnName (name c) = Inr (name c)
           \<and> 0x2028 \<notin> set (name c) \<and> 0x2029 \<notin> set (name c)
           \<and> (\<forall>i \<in> set (items c).
                 validateItemText (item_text i) = Inr (item_text i)
                 \<and> 0x2028 \<notin> set (item_text i) \<and> 0x2029 \<notin> set (item_text i))"
  shows "parseKanban (serializeKanban b)
           = \<lparr>path = [], settings = settings b, columns = map parsed_column (columns b)\<rparr>"
proof -
  have "\<forall>c \<in> set (columns b). line_text (name c)
          \<and> (\<forall>i \<in> set (items c). line_text (item_text i))"
  proof (intro ballI conjI)
    fix c assume c: "c \<in> set (columns b)"
    with assms(3) validateColumnName_fixed [of "name c"]
    show "line_text (name c)"
      by (auto simp: line_text_def is_lt_def)
    fix i assume "i \<in> set (items c)"
    with c assms(3) validateItemText_fixed [of "item_text i"]
    show "line_text (item_text i)"
      by (auto simp: line_text_def is_lt_def)
  qed
  with assms(1,2) show ?thesis
    by (rule roundtrip_without_line_terminators)
qed


text \<open>The board of Scenario A satisfies the conditions and survives the round trip.\<close>

lemma roundtrip_scenario_A:
  "parseKanban (serializeKanban scenario_A_board) = scenario_A_board"
proof -
  have s: "settings scenario_A_board = [(kanban_plugin, js ''basic'')]"
    by (simp add: scenario_A_board_def)
  have v: "\<forall>c \<in> set (columns scenario_A_board).
           validateColumnName (name c) = Inr (name c)
           \<and> 0x2028 \<notin> set (name c) \<and> 0x2029 \<notin> set (name c)
           \<and> (\<forall>i \<in> set (items c).
                 validateItemText (item_text i) = Inr (item_text i)
                 \<and> 0x2028 \<notin> set (item_text i) \<and> 0x2029 \<notin> set (item_text i))"
    by (simp add: scenario_A_board_def mk_item_def validateColumnName_def validateItemText_def
        containsNullByte_def js_includes_def MAX_COLUMN_NAME_LENGTH_def MAX_ITEM_TEXT_LENGTH_def
        string_eval)
  from roundtrip_validated [OF s _ v] show ?thesis
    by (simp add: scenario_A_board_def mk_item_def parsed_column_def parsed_item_def)
qed

text \<open>
  C1. The item text \<open>a\<close>, U+2028, \<open>b\<close> passes \<open>validateItemText\<close> unchanged and \<open>A\<close> passes
  \<open>validateColumnName\<close>, but the board does not survive the round trip: \<open>.\<close> in the item
  pattern matches no line separator, so the written item line is not recognised and the
  parsed column \<open>A\<close> is empty.
\<close>

theorem C1_line_separator_lost:
  "validateItemText [0x61, 0x2028, 0x62] = Inr [0x61, 0x2028, 0x62]
   \<and> validateColumnName (js ''A'') = Inr (js ''A'')
   \<and> columns (parseKanban (serializeKanban separator_board)) = [\<lparr>name = js ''A'', items = []\<rparr>]"
  by (simp add: separator_board_def serializeKanban_def column_parts_def item_line_def
      template_value_def JSON_stringify_def json_quote_def
      validateItemText_def validateColumnName_def containsNullByte_def js_includes_def
      MAX_ITEM_TEXT_LENGTH_def MAX_COLUMN_NAME_LENGTH_def string_eval parse_eval)


section \<open>The tools around the board operations\<close>

text \<open>
  Each tool validates its parameters, resolves the board path inside the vault, reads and
  parses the file, runs its operation on the board, and writes the serialized result
  back. When all steps before the operation succeed and the file can be written, the
  tool returns what the operation returns; when any step fails, no file changes.
\<close>

lemma kanbanItemReorder_runs:
  assumes "KanbanItemReorderSchema vault boardArg columnName txt position = Inr (c, t)"
    and "validateVaultPath e vault boardArg = Inr p"
    and "files e p = Some content"
    and "reorder_in_board ((parseKanban content)\<lparr>path := p\<rparr>) c t position
           = Inr (b', it, old, new)"
    and "can_write e p"
  shows "kanbanItemReorder e vault boardArg columnName txt position
           = (Inr \<lparr>rr_board = boardArg, rr_column = c, rr_item = it,
                   oldPosition = old, newPosition = new\<rparr>,
              e\<lparr>files := ((files e)(p @ js ''.tmp'' := None))(p \<mapsto> serializeKanban b')\<rparr>)"
  using assms
  by (simp add: kanbanItemReorder_def bind_err_def secure_path_def readKanbanFile_def
      commit_def writeKanbanFile_def)

lemma kanbanColumnRemove_runs:
  assumes "KanbanColumnRemoveSchema vault boardArg columnName targetColumn = Inr (n, t)"
    and "validateVaultPath e vault boardArg = Inr p"
    and "files e p = Some content"
    and "remove_in_board ((parseKanban content)\<lparr>path := p\<rparr>) n t = Inr (b', k)"
    and "can_write e p"
  shows "\<exists>res. kanbanColumnRemove e vault boardArg columnName targetColumn
           = (Inr res,
              e\<lparr>files := ((files e)(p @ js ''.tmp'' := None))(p \<mapsto> serializeKanban b')\<rparr>)
         \<and> removedColumn res = n \<and> itemsRemoved res = k"
  using assms
  by (simp add: kanbanColumnRemove_def bind_err_def secure_path_def readKanbanFile_def
      commit_def writeKanbanFile_def Let_def)

lemma kanbanArchiveDone_runs:
  assumes "vault \<noteq> []" "boardArg \<noteq> []"
    and "validateVaultPath e vault boardArg = Inr p"
    and "files e p = Some content"
    and "can_write e p"
  shows "kanbanArchiveDone e vault boardArg archiveColumn
           = (let b' = archive_in_board ((parseKanban content)\<lparr>path := p\<rparr>)
                         (archive_name archiveColumn)
              in (Inr b',
                  e\<lparr>files := ((files e)(p @ js ''.tmp'' := None))(p \<mapsto> serializeKanban b')\<rparr>))"
  using assms
  by (simp add: kanbanArchiveDone_def bind_err_def secure_path_def readKanbanFile_def
      commit_def writeKanbanFile_def Let_def nonempty_param_def)

lemma tools_fail_without_writing:
  "kanbanItemReorder e vault boardArg columnName txt position = (Inl err, e') \<Longrightarrow> e' = e"
  "kanbanArchiveDone e vault boardArg archiveColumn = (Inl err, e') \<Longrightarrow> e' = e"
  "kanbanMerge e vault sourceBoards targetBoard = (Inl err, e') \<Longrightarrow> e' = e"
  unfolding kanbanItemReorder_def kanbanArchiveDone_def kanbanMerge_def
  by (blast dest: commit_failure)+

lemma archive_tool_scenario_A:
  "\<exists>b'. fst (kanbanArchiveDone merge_env (js ''/vault'') (js ''a.md'') None) = Inr b'
     \<and> columns b'
       = [\<lparr>name = js ''Backlog'', items = [mk_item ''Task 1'' False, mk_item ''Task 2'' False]\<rparr>,
          \<lparr>name = js ''Done'', items = []\<rparr>,
          \<lparr>name = js ''Archive'', items = [mk_item ''Done task'' True]\<rparr>]"
proof -
  have p: "validateVaultPath merge_env (js ''/vault'') (js ''a.md'') = Inr (js ''/vault/a.md'')"
    by (simp add: merge_env_def path_eval js_def)
  have f: "files merge_env (js ''/vault/a.md'') = Some scenario_A_document"
    by (simp add: merge_env_def)
  have w: "can_write merge_env (js ''/vault/a.md'')"
    by (simp add: merge_env_def)
  have n: "js ''/vault'' \<noteq> []" "js ''a.md'' \<noteq> []"
    by (simp_all add: js_def)
  show ?thesis
    unfolding kanbanArchiveDone_runs [OF n p f w]
    by (simp add: Let_def parse_scenario_A archive_in_board_def archive_name_def
        scenario_A_board_def mk_item_def has_name_def js_def)
qed

end
